theory Spec2Isabelle
  imports Complex_Main "HOL-Library.Log_Nat"
begin

section \<open>The Ethos integration client (src/integration.js)\<close>

text \<open>
  The module exports four asynchronous functions, \<open>getToken\<close>, \<open>get\<close>, \<open>graphql\<close> and
  \<open>post\<close>, over four private helpers (\<open>integrationUrl\<close>, \<open>buildUrl\<close>,
  \<open>createNewRequestOptions\<close>, \<open>addAuthorization\<close>). Each call runs sequentially: an
  \<open>await\<close> is modelled as an ordinary call, so interleavings of several calls on one
  context are outside this development.

  What the module takes from its surroundings is a parameter of the model (record
  \<open>runtime\<close>): the clock, the process environment, the HTTP client \<open>got\<close> and the
  built-in \<open>JSON.parse\<close> and \<open>JSON.stringify\<close>. The logger has no effect on control
  flow or data and is left out. Timestamps and status codes are integers
  (\<open>Date.getTime()\<close> returns whole milliseconds, far below \<open>2 ^ 53\<close>, where the
  arithmetic of \<open>getToken\<close> is exact). A counter is an integer-valued JavaScript number,
  and adding one to it rounds as IEEE double-precision addition does.
\<close>

subsection \<open>JavaScript values\<close>

text \<open>
  An optional string argument is a \<open>string option\<close>: \<open>None\<close> is \<open>undefined\<close>.
  \<open>truthy\<close> is the test JavaScript applies in \<open>if (x)\<close>, \<open>!x\<close> and \<open>x ? a : b\<close>:
  \<open>undefined\<close> and the empty string are falsy. \<open>str\<close> is the conversion a template
  literal and a property key apply: \<open>undefined\<close> becomes the text \<open>undefined\<close>.
\<close>

definition truthy :: "string option \<Rightarrow> bool" where
  "truthy v = (case v of None \<Rightarrow> False | Some s \<Rightarrow> s \<noteq> [])"

definition str :: "string option \<Rightarrow> string" where
  "str v = (case v of None \<Rightarrow> ''undefined'' | Some s \<Rightarrow> s)"

text \<open>
  Values that travel as JSON: what \<open>JSON.parse\<close> returns, and what callers pass as
  \<open>data\<close>, \<open>query\<close>, \<open>variables\<close> and search parameters. An object is the list of its
  own properties.
\<close>

datatype json =
    JNull
  | JBool bool
  | JNum rat
  | JStr string
  | JArr "json list"
  | JObj "(string \<times> json) list"

fun js_truthy :: "json \<Rightarrow> bool" where
  "js_truthy JNull = False"
| "js_truthy (JBool b) = b"
| "js_truthy (JNum n) = (n \<noteq> 0)"
| "js_truthy (JStr s) = (s \<noteq> [])"
| "js_truthy (JArr xs) = True"
| "js_truthy (JObj ps) = True"

fun is_string :: "json \<Rightarrow> bool" where
  "is_string (JStr s) = True"
| "is_string v = False"

text \<open>Property assignment \<open>obj[k] = v\<close> and \<open>Object.assign(target, source)\<close>.\<close>

fun setProp :: "string \<Rightarrow> 'v \<Rightarrow> (string \<times> 'v) list \<Rightarrow> (string \<times> 'v) list" where
  "setProp k v [] = [(k, v)]"
| "setProp k v (p # ps) = (if fst p = k then (k, v) # ps else p # setProp k v ps)"

definition assign :: "(string \<times> 'v) list \<Rightarrow> (string \<times> 'v) list \<Rightarrow> (string \<times> 'v) list" where
  "assign target source = fold (\<lambda>p. setProp (fst p) (snd p)) source target"

text \<open>Decimal text of an array index, the property key of an array element.\<close>

definition digit :: "nat \<Rightarrow> char" where
  "digit d = char_of (48 + d)"

fun decimal :: "nat \<Rightarrow> string" where
  "decimal n = (if n < 10 then [digit n] else decimal (n div 10) @ [digit (n mod 10)])"

declare decimal.simps [simp del]

text \<open>
  The own enumerable properties an object spread \<open>{...v}\<close> copies: the fields of an
  object, the elements of an array under their indices, the characters of a string
  under their indices, and nothing for \<open>null\<close>, a boolean or a number.
\<close>

fun ownProperties :: "json \<Rightarrow> (string \<times> json) list" where
  "ownProperties (JObj ps) = ps"
| "ownProperties (JArr xs) = zip (map decimal [0..<length xs]) xs"
| "ownProperties (JStr s) = zip (map decimal [0..<length s]) (map (\<lambda>c. JStr [c]) s)"
| "ownProperties v = []"

subsection \<open>Errors\<close>

text \<open>
  Every \<open>throw new Error(...)\<close> of the module is a constructor, named after its message;
  a status code in the message is the constructor's argument. The specification's names
  for them: \<open>UnknownBase\<close> is its ConfigurationError, \<open>MissingApiKey\<close>,
  \<open>GetMissingResource\<close> and \<open>PostMissingResource\<close> are its InvalidArgument, \<open>AuthFailed\<close>
  is its AuthenticationError and \<open>GraphQLFailed\<close> its IntegrationError. \<open>RequestError\<close> is
  what the HTTP client throws and \<open>SyntaxError\<close> what \<open>JSON.parse\<close> throws.
\<close>

datatype error =
    UnknownBase string
  | MissingApiKey
  | AuthFailed int
  | GetMissingResource
  | GetFailed int
  | GetNoToken
  | GraphQLFailed int
  | GraphQLNoToken
  | PostMissingResource
  | PostFailed int
  | PostNoToken
  | RequestError string
  | SyntaxError string

datatype 'a outcome = Returns 'a | Throws error

subsection \<open>URL builder\<close>

record options =
  ethosIntegrationUrl :: "string option"
  headers :: "(string \<times> string) list option"

text \<open>
  \<open>options.ethosIntegrationUrl || process.env.ETHOS_INTEGRATION_URL\<close>, with \<open>options\<close>
  defaulting to \<open>{}\<close>. The first argument is the environment variable.
\<close>

definition integrationUrl :: "string option \<Rightarrow> options option \<Rightarrow> string option" where
  "integrationUrl env_url opts =
     (let configured = (case opts of None \<Rightarrow> None | Some opt \<Rightarrow> ethosIntegrationUrl opt)
      in if truthy configured then configured else env_url)"

definition buildUrl ::
  "string option \<Rightarrow> string option \<Rightarrow> string option \<Rightarrow> options option \<Rightarrow> string option
     \<Rightarrow> error + string" where
  "buildUrl env_url base id' opts resource =
     (let b = (case base of None \<Rightarrow> ''api'' | Some given \<Rightarrow> given) in
      if b = ''admin'' \<or> b = ''api'' then
        Inr (str (integrationUrl env_url opts) @ ''/'' @ b @ ''/'' @ str resource
             @ (if truthy id' then ''/'' @ str id' else ''''))
      else if b = ''auth'' \<or> b = ''graphql'' then
        Inr (str (integrationUrl env_url opts) @ ''/'' @ b)
      else Inl (UnknownBase b))"

subsection \<open>Request options\<close>

datatype jsonBody = JsonData "json option" | JsonQuery "json option" "json option"

record requestOptions =
  req_headers :: "(string \<times> string) list"
  req_searchParams :: "(string \<times> json) list option"
  req_json :: "jsonBody option"

definition baseOptions :: requestOptions where
  "baseOptions =
     \<lparr>req_headers = [(''Accept'', ''application/json''), (''Cache-Control'', ''no-cache'')],
      req_searchParams = None, req_json = None\<rparr>"

definition createNewRequestOptions :: "(string \<times> string) list option \<Rightarrow> requestOptions" where
  "createNewRequestOptions hs =
     (case hs of
        None \<Rightarrow> baseOptions
      | Some given \<Rightarrow> baseOptions\<lparr>req_headers := assign (req_headers baseOptions) given\<rparr>)"

definition addAuthorization :: "string \<Rightarrow> requestOptions \<Rightarrow> requestOptions" where
  "addAuthorization tok ro =
     ro\<lparr>req_headers := setProp ''Authorization'' (''Bearer '' @ tok) (req_headers ro)\<rparr>"

text \<open>\<open>options?.headers\<close>.\<close>

definition optionalHeaders :: "options option \<Rightarrow> (string \<times> string) list option" where
  "optionalHeaders opts = (case opts of None \<Rightarrow> None | Some opt \<Rightarrow> headers opt)"

subsection \<open>Contexts, the store and the runtime\<close>

datatype cached = Cached (expires: int) (cached_token: string)

record Context =
  tokensByApiKey :: "(string \<rightharpoonup> cached) option"
  ethosGetCount :: "int option"
  ethosGraphQLCount :: "int option"
  ethosPostCount :: "int option"

definition emptyContext :: Context where
  "emptyContext = \<lparr>tokensByApiKey = None, ethosGetCount = None,
                    ethosGraphQLCount = None, ethosPostCount = None\<rparr>"

datatype verb = GET | POST

datatype response = Response (statusCode: int) (body: string) | Rejected string

text \<open>
  A context is a JavaScript object, mutated in place and handed back by reference, so
  the model keeps a store: \<open>heap\<close> maps a reference to the object it names and \<open>next_ref\<close>
  is the first reference not yet allocated. \<open>calls\<close> is the trace of HTTP requests in the
  order they were issued, each tagged with the source line of \<open>integration.js\<close> that
  issued it.
\<close>

datatype site = AuthExchange | GetRequest | GraphQLRequest | PostRequest

datatype call = Call (call_site: site) (call_verb: verb) (call_url: string) (call_options: requestOptions)

record world =
  heap :: "nat \<Rightarrow> Context"
  next_ref :: nat
  calls :: "call list"

record runtime =
  now :: int
  ETHOS_INTEGRATION_URL :: "string option"
  got :: "verb \<Rightarrow> string \<Rightarrow> requestOptions \<Rightarrow> response"
  JSON_parse :: "string \<Rightarrow> json option"
  JSON_stringify :: "json \<Rightarrow> string"

record args =
  apiKey :: "string option"
  base :: "string option"
  context' :: "nat option"
  data :: "json option"
  id' :: "string option"
  options :: "options option"
  query :: "json option"
  resource :: "string option"
  searchParams :: "(string \<times> json) list option"
  token :: "string option"
  variables :: "json option"

text \<open>The parameter default \<open>context = {}\<close>: a fresh object when the caller passes none.\<close>

definition defaultContext :: "nat option \<Rightarrow> world \<Rightarrow> nat \<times> world" where
  "defaultContext given w =
     (case given of
        Some c \<Rightarrow> (c, w)
      | None \<Rightarrow> (next_ref w,
                 w\<lparr>heap := (heap w)(next_ref w := emptyContext), next_ref := Suc (next_ref w)\<rparr>))"

definition issue :: "site \<Rightarrow> verb \<Rightarrow> string \<Rightarrow> requestOptions \<Rightarrow> world \<Rightarrow> world" where
  "issue s v url ro w = w\<lparr>calls := calls w @ [Call s v url ro]\<rparr>"

text \<open>
  JavaScript numbers are IEEE doubles: 53 significant bits, results rounded to the
  nearest double, a tie going to the even significand. \<open>nearestDouble x\<close> is the double
  nearest to the integer \<open>x\<close>: \<open>x\<close> itself up to \<open>2 ^ 53\<close> in absolute value, and
  beyond that the nearest multiple of the spacing \<open>ulp\<close> of doubles of that magnitude.
  The sum \<open>k + 1\<close> of the code, for a counter \<open>k\<close> that is a double, is
  \<open>nearestDouble (k + 1)\<close>; it never exceeds the largest double. A counter that is not
  an integer (a fraction, \<open>NaN\<close>, an infinity) is outside the type.
\<close>

definition nearestDouble :: "int \<Rightarrow> int" where
  "nearestDouble x =
     (if \<bar>x\<bar> \<le> 2 ^ 53 then x
      else
        let ulp = 2 ^ nat (bitlen \<bar>x\<bar> - 53); q = x div ulp; r = x mod ulp in
        if 2 * r < ulp then q * ulp
        else if ulp < 2 * r then (q + 1) * ulp
        else if even q then q * ulp
        else (q + 1) * ulp)"

text \<open>\<open>n ? n + 1 : 1\<close> on a counter field.\<close>

definition increment :: "int option \<Rightarrow> int option" where
  "increment n =
     (case n of
        None \<Rightarrow> Some 1
      | Some k \<Rightarrow> if k \<noteq> 0 then Some (nearestDouble (k + 1)) else Some 1)"

subsection \<open>Token manager\<close>

text \<open>
  \<open>context.tokensByApiKey\<close> as \<open>getToken\<close> reads it after
  \<open>if (!context.tokensByApiKey) context.tokensByApiKey = {}\<close>: a missing table is empty.
\<close>

definition cacheOf :: "Context \<Rightarrow> (string \<rightharpoonup> cached)" where
  "cacheOf ctx = (case tokensByApiKey ctx of None \<Rightarrow> Map.empty | Some m \<Rightarrow> m)"

text \<open>The options of the authentication request: the API key is the bearer credential.\<close>

definition authRequestOptions :: "string \<Rightarrow> requestOptions" where
  "authRequestOptions key = addAuthorization key (createNewRequestOptions None)"

datatype token_result = TokenResult (result_context: nat) (result_token: string)

definition getToken :: "runtime \<Rightarrow> args \<Rightarrow> world \<Rightarrow> token_result outcome \<times> world" where
  "getToken rt a w =
     (case defaultContext (context' a) w of (c, w0) \<Rightarrow>
      if truthy (token a) then (Returns (TokenResult c (str (token a))), w0)
      else
        let cache = cacheOf (heap w0 c);
            w1 = w0\<lparr>heap := (heap w0)(c := (heap w0 c)\<lparr>tokensByApiKey := Some cache\<rparr>)\<rparr>;
            cachedToken = cache (str (apiKey a))
        in
        case (case cachedToken of
                None \<Rightarrow> None
              | Some t \<Rightarrow> if expires t - 30 * 1000 > now rt then Some (cached_token t) else None) of
          Some tok \<Rightarrow> (Returns (TokenResult c tok), w1)
        | None \<Rightarrow>
            if \<not> truthy (apiKey a) then (Throws MissingApiKey, w1)
            else
              let ro = authRequestOptions (str (apiKey a)) in
              case buildUrl (ETHOS_INTEGRATION_URL rt) (Some ''auth'') None (options a) None of
                Inl err \<Rightarrow> (Throws err, w1)
              | Inr url \<Rightarrow>
                  let w2 = issue AuthExchange POST url ro w1 in
                  case got rt POST url ro of
                    Rejected msg \<Rightarrow> (Throws (RequestError msg), w2)
                  | Response status raw \<Rightarrow>
                      if status = 200 then
                        (Returns (TokenResult c raw),
                         w2\<lparr>heap := (heap w2)(c := (heap w2 c)
                              \<lparr>tokensByApiKey :=
                                 Some (cache(str (apiKey a) \<mapsto> Cached (now rt + 5 * 60 * 1000) raw))\<rparr>)\<rparr>)
                      else (Throws (AuthFailed status), w2))"

subsection \<open>Operation wrappers\<close>

text \<open>
  \<open>get\<close> and \<open>post\<close> both rewrite \<open>searchParams.criteria\<close> to its JSON text when it is
  truthy and not yet a string. The values of search parameters are of type \<open>json\<close>, on
  which \<open>JSON.stringify\<close> returns a text; a value it would throw on (a cyclic object, a
  BigInt) is outside that type.
\<close>

definition stringifyCriteria ::
  "(json \<Rightarrow> string) \<Rightarrow> (string \<times> json) list \<Rightarrow> (string \<times> json) list" where
  "stringifyCriteria stringify sp =
     (case map_of sp ''criteria'' of
        None \<Rightarrow> sp
      | Some v \<Rightarrow>
          if js_truthy v \<and> \<not> is_string v then setProp ''criteria'' (JStr (stringify v)) sp
          else sp)"

text \<open>
  The request options each wrapper builds once it holds a token, and the target of \<open>get\<close>
  and \<open>post\<close> (their \<open>base\<close> defaults to \<open>api\<close>).
\<close>

definition getRequestOptions :: "runtime \<Rightarrow> args \<Rightarrow> string \<Rightarrow> requestOptions" where
  "getRequestOptions rt a tokenToUse =
     (addAuthorization tokenToUse (createNewRequestOptions (optionalHeaders (options a))))
     \<lparr>req_searchParams :=
        Some (stringifyCriteria (JSON_stringify rt)
                (case searchParams a of None \<Rightarrow> [] | Some given \<Rightarrow> given))\<rparr>"

definition postRequestOptions :: "runtime \<Rightarrow> args \<Rightarrow> string \<Rightarrow> requestOptions" where
  "postRequestOptions rt a tokenToUse =
     (let hs = assign (assign [] (case optionalHeaders (options a) of
                                   None \<Rightarrow> [] | Some given \<Rightarrow> given))
                 [(''Content-Type'', ''application/json'')]
      in (addAuthorization tokenToUse (createNewRequestOptions (Some hs)))
         \<lparr>req_searchParams :=
            Some (stringifyCriteria (JSON_stringify rt)
                    (case searchParams a of None \<Rightarrow> [] | Some given \<Rightarrow> given)),
          req_json := Some (JsonData (data a))\<rparr>)"

definition graphqlRequestOptions :: "args \<Rightarrow> string \<Rightarrow> requestOptions" where
  "graphqlRequestOptions a tokenToUse =
     (addAuthorization tokenToUse (createNewRequestOptions (optionalHeaders (options a))))
     \<lparr>req_json := Some (JsonQuery (query a) (variables a))\<rparr>"

definition resourceUrl :: "runtime \<Rightarrow> args \<Rightarrow> error + string" where
  "resourceUrl rt a =
     buildUrl (ETHOS_INTEGRATION_URL rt)
       (Some (case base a of None \<Rightarrow> ''api'' | Some given \<Rightarrow> given))
       (id' a) (options a) (resource a)"

text \<open>
  The result of \<open>get\<close> and \<open>post\<close>: \<open>{context, data}\<close> or the error-result
  \<open>{context, error}\<close>. The context is the reference, not a copy of the object.
\<close>

datatype reply =
    DataReply (reply_context: nat) (reply_data: json)
  | ErrorReply (reply_context: nat) (reply_error: error)

definition get :: "runtime \<Rightarrow> args \<Rightarrow> world \<Rightarrow> reply outcome \<times> world" where
  "get rt a w =
     (case defaultContext (context' a) w of (c, w0) \<Rightarrow>
      if \<not> truthy (resource a) then (Throws GetMissingResource, w0)
      else
        case getToken rt (a\<lparr>context' := Some c\<rparr>) w0 of
          (Throws err, w1) \<Rightarrow> (Throws err, w1)
        | (Returns tr, w1) \<Rightarrow>
            let tokenToUse = result_token tr in
            if tokenToUse \<noteq> [] then
              let ro = getRequestOptions rt a tokenToUse in
              case resourceUrl rt a of
                Inl err \<Rightarrow> (Throws err, w1)
              | Inr url \<Rightarrow>
                  let w2 = issue GetRequest GET url ro
                             (w1\<lparr>heap := (heap w1)(c := (heap w1 c)
                                   \<lparr>ethosGetCount := increment (ethosGetCount (heap w1 c))\<rparr>)\<rparr>)
                  in
                  ((case got rt GET url ro of
                      Rejected msg \<Rightarrow> Returns (ErrorReply c (RequestError msg))
                    | Response status raw \<Rightarrow>
                        if status = 200 then
                          (case JSON_parse rt raw of
                             Some v \<Rightarrow> Returns (DataReply c v)
                           | None \<Rightarrow> Returns (ErrorReply c (SyntaxError raw)))
                        else Returns (ErrorReply c (GetFailed status))),
                   w2)
            else (Throws GetNoToken, w1))"

text \<open>
  The result of \<open>graphql\<close> is the object \<open>{context, ...JSON.parse(response.body)}\<close>: its
  \<open>context\<close> property holds the reference, and the spread assigns the parsed body's own
  properties after it, in their order.
\<close>

datatype member = ContextRef nat | Member json

definition graphql :: "runtime \<Rightarrow> args \<Rightarrow> world \<Rightarrow> (string \<times> member) list outcome \<times> world" where
  "graphql rt a w =
     (case defaultContext (context' a) w of (c, w0) \<Rightarrow>
      case getToken rt (a\<lparr>context' := Some c\<rparr>) w0 of
        (Throws err, w1) \<Rightarrow> (Throws err, w1)
      | (Returns tr, w1) \<Rightarrow>
          let tokenToUse = result_token tr in
          if tokenToUse \<noteq> [] then
            let ro = graphqlRequestOptions a tokenToUse in
            case buildUrl (ETHOS_INTEGRATION_URL rt) (Some ''graphql'') None (options a) None of
              Inl err \<Rightarrow> (Throws err, w1)
            | Inr url \<Rightarrow>
                let w2 = issue GraphQLRequest POST url ro
                           (w1\<lparr>heap := (heap w1)(c := (heap w1 c)
                                 \<lparr>ethosGraphQLCount := increment (ethosGraphQLCount (heap w1 c))\<rparr>)\<rparr>)
                in
                ((case got rt POST url ro of
                    Rejected msg \<Rightarrow> Throws (RequestError msg)
                  | Response status raw \<Rightarrow>
                      if status = 200 then
                        (case JSON_parse rt raw of
                           Some v \<Rightarrow>
                             Returns (assign [(''context'', ContextRef c)]
                                        (map (\<lambda>p. (fst p, Member (snd p))) (ownProperties v)))
                         | None \<Rightarrow> Throws (SyntaxError raw))
                      else Throws (GraphQLFailed status)),
                 w2)
          else (Throws GraphQLNoToken, w1))"

definition post :: "runtime \<Rightarrow> args \<Rightarrow> world \<Rightarrow> reply outcome \<times> world" where
  "post rt a w =
     (case defaultContext (context' a) w of (c, w0) \<Rightarrow>
      if \<not> truthy (resource a) then (Throws PostMissingResource, w0)
      else
        case getToken rt (a\<lparr>context' := Some c\<rparr>) w0 of
          (Throws err, w1) \<Rightarrow> (Throws err, w1)
        | (Returns tr, w1) \<Rightarrow>
            let tokenToUse = result_token tr in
            if tokenToUse \<noteq> [] then
              let ro = postRequestOptions rt a tokenToUse in
              case resourceUrl rt a of
                Inl err \<Rightarrow> (Throws err, w1)
              | Inr url \<Rightarrow>
                  let w2 = issue PostRequest POST url ro
                             (w1\<lparr>heap := (heap w1)(c := (heap w1 c)
                                   \<lparr>ethosPostCount := increment (ethosPostCount (heap w1 c))\<rparr>)\<rparr>)
                  in
                  ((case got rt POST url ro of
                      Rejected msg \<Rightarrow> Returns (ErrorReply c (RequestError msg))
                    | Response status raw \<Rightarrow>
                        if status = 200 \<or> status = 201 then
                          (case JSON_parse rt raw of
                             Some v \<Rightarrow> Returns (DataReply c v)
                           | None \<Rightarrow> Returns (ErrorReply c (SyntaxError raw)))
                        else Returns (ErrorReply c (PostFailed status))),
                   w2)
            else (Throws PostNoToken, w1))"

subsection \<open>Vocabulary of the properties\<close>

text \<open>The requests of the trace that are authentication exchanges.\<close>

definition authCalls :: "world \<Rightarrow> call list" where
  "authCalls w = filter (\<lambda>x. call_site x = AuthExchange) (calls w)"

text \<open>
  A counter field read as a number: a field that was never set counts as zero, which is
  how \<open>n ? n + 1 : 1\<close> treats it.
\<close>

definition counter :: "int option \<Rightarrow> int" where
  "counter n = (case n of None \<Rightarrow> 0 | Some k \<Rightarrow> k)"

definition counters :: "Context \<Rightarrow> int option \<times> int option \<times> int option" where
  "counters ctx = (ethosGetCount ctx, ethosGraphQLCount ctx, ethosPostCount ctx)"

text \<open>
  Token resolution inside a wrapper succeeds with a usable token: the wrapper's call
  \<open>getToken({apiKey, context, options, token})\<close> on context \<open>c\<close> in world \<open>w0\<close> returns
  the non-empty token \<open>tok\<close> and leaves world \<open>w1\<close>.
\<close>

definition resolvesToken :: "runtime \<Rightarrow> args \<Rightarrow> nat \<Rightarrow> world \<Rightarrow> string \<Rightarrow> world \<Rightarrow> bool" where
  "resolvesToken rt a c w0 tok w1 =
     (getToken rt (a\<lparr>context' := Some c\<rparr>) w0 = (Returns (TokenResult c tok), w1) \<and> tok \<noteq> [])"

subsection \<open>Sample inputs\<close>

text \<open>
  Concrete inputs for the examples below. \<open>noArgs\<close> is the argument bag \<open>{}\<close>.
  \<open>emptyWorld\<close> holds one allocated object, the empty context \<open>{}\<close> at reference 0, and
  an empty trace; \<open>cachedWorld e\<close> is the same with a token cached for the API key
  \<open>key\<close>, expiring at \<open>e\<close>.
\<close>

definition noArgs :: args where
  "noArgs = \<lparr>apiKey = None, base = None, context' = None, data = None, id' = None,
             options = None, query = None, resource = None, searchParams = None,
             token = None, variables = None\<rparr>"

definition emptyWorld :: world where
  "emptyWorld = \<lparr>heap = (\<lambda>r. emptyContext), next_ref = 1, calls = []\<rparr>"

definition cachedWorld :: "int \<Rightarrow> world" where
  "cachedWorld e = emptyWorld\<lparr>heap := (heap emptyWorld)
     (0 := emptyContext\<lparr>tokensByApiKey := Some [''key'' \<mapsto> Cached e ''cached'']\<rparr>)\<rparr>"

text \<open>\<open>countedWorld n\<close> is \<open>emptyWorld\<close> with \<open>ethosGetCount\<close> of the context set to \<open>n\<close>.\<close>

definition countedWorld :: "int \<Rightarrow> world" where
  "countedWorld n = emptyWorld\<lparr>heap := (heap emptyWorld)
     (0 := emptyContext\<lparr>ethosGetCount := Some n\<rparr>)\<rparr>"

text \<open>
  Three JSON texts and one text that is not JSON. \<open>sampleParse\<close> agrees with
  \<open>JSON.parse\<close> on these four texts; the examples apply it to no other text.
\<close>

definition bodyA :: string where
  \<open>bodyA = ''{"a":1}''\<close>

definition bodyData :: string where
  \<open>bodyData = ''{"data":null}''\<close>

definition bodyContext :: string where
  \<open>bodyContext = ''{"context":1}''\<close>

definition bodyHtml :: string where
  \<open>bodyHtml = ''<html>Bad Gateway</html>''\<close>

definition sampleParse :: "string \<Rightarrow> json option" where
  "sampleParse raw =
     (if raw = bodyA then Some (JObj [(''a'', JNum 1)])
      else if raw = bodyData then Some (JObj [(''data'', JNull)])
      else if raw = bodyContext then Some (JObj [(''context'', JNum 1)])
      else None)"

text \<open>
  A provider at \<open>https://ethos.example\<close> that answers the authentication request with
  \<open>auth\<close> and every other request with \<open>reply\<close>, read at time 1000000. The examples pass
  no search parameters, so \<open>JSON.stringify\<close> is never applied in them.
\<close>

definition sampleRuntime :: "response \<Rightarrow> response \<Rightarrow> runtime" where
  "sampleRuntime auth reply =
     \<lparr>now = 1000000,
      ETHOS_INTEGRATION_URL = Some ''https://ethos.example'',
      got = (\<lambda>v url ro. if v = POST \<and> url = ''https://ethos.example/auth'' then auth else reply),
      JSON_parse = sampleParse,
      JSON_stringify = (\<lambda>v. ''null'')\<rparr>"

section \<open>Auxiliary facts\<close>

lemmas sample_defs = noArgs_def emptyWorld_def sampleRuntime_def cachedWorld_def emptyContext_def
  truthy_def str_def defaultContext_def cacheOf_def integrationUrl_def

lemma same_cache_update:
  "tokensByApiKey ctx = Some m \<Longrightarrow> ctx\<lparr>tokensByApiKey := Some m\<rparr> = ctx"
  by (cases ctx) simp

lemma buildUrl_auth:
  "buildUrl env (Some ''auth'') i opts res = Inr (str (integrationUrl env opts) @ ''/auth'')"
  by (simp add: buildUrl_def)

lemma buildUrl_graphql:
  "buildUrl env (Some ''graphql'') i opts res = Inr (str (integrationUrl env opts) @ ''/graphql'')"
  by (simp add: buildUrl_def)

lemma authRequestOptions_headers:
  "authRequestOptions key =
     \<lparr>req_headers = [(''Accept'', ''application/json''), (''Cache-Control'', ''no-cache''),
                     (''Authorization'', ''Bearer '' @ key)],
      req_searchParams = None, req_json = None\<rparr>"
  by (simp add: authRequestOptions_def addAuthorization_def createNewRequestOptions_def
      baseOptions_def)

lemma defaultContext_calls: "defaultContext given w = (c, w') \<Longrightarrow> calls w' = calls w"
  by (auto simp add: defaultContext_def split: option.splits)

lemma defaultContext_given: "defaultContext (Some c) w = (c, w)"
  by (simp add: defaultContext_def)

lemma no_usable_entry:
  assumes "\<forall>t. cacheOf ctx key = Some t \<longrightarrow> \<not> expires t - 30 * 1000 > time"
  shows "(case cacheOf ctx key of
            None \<Rightarrow> None
          | Some t \<Rightarrow> if expires t - 30 * 1000 > time then Some (cached_token t) else None) = None"
  using assms by (auto split: option.splits)

section \<open>Token manager: cache hit, cache miss, failures\<close>

text \<open>
  Claim C1. A call to \<open>getToken\<close> without an explicit token (the token argument is
  \<open>undefined\<close>, or the empty string, which \<open>if (token)\<close> treats alike), on a context whose
  \<open>tokensByApiKey\<close> has an entry \<open>t\<close> under the key of \<open>apiKey\<close> with
  \<open>expires - 30000 > now\<close>, returns that entry's token together with the context and
  leaves the whole world as it was: the trace of requests is unchanged, so no network
  call was issued, and the store is unchanged, so the cache entry is.
\<close>

theorem getToken_cache_hit:
  assumes "\<not> truthy (token a)"
    and "context' a = Some c"
    and "tokensByApiKey (heap w c) = Some m"
    and "m (str (apiKey a)) = Some t"
    and "expires t - 30 * 1000 > now rt"
  shows "getToken rt a w = (Returns (TokenResult c (cached_token t)), w)"
  using assms
  by (simp add: getToken_def defaultContext_def cacheOf_def same_cache_update)

text \<open>
  The cached token expires at 1030001, one millisecond more than 30 seconds after the
  clock reading 1000000.
\<close>

theorem getToken_cache_hit_witness:
  "getToken (sampleRuntime (Response 500 '''') (Response 500 ''''))
     (noArgs\<lparr>apiKey := Some ''key'', context' := Some 0\<rparr>) (cachedWorld 1030001)
   = (Returns (TokenResult 0 ''cached''), cachedWorld 1030001)"
  using getToken_cache_hit [where a = "noArgs\<lparr>apiKey := Some ''key'', context' := Some 0\<rparr>"
      and c = 0 and w = "cachedWorld 1030001" and m = "[''key'' \<mapsto> Cached 1030001 ''cached'']"
      and t = "Cached 1030001 ''cached''"
      and rt = "sampleRuntime (Response 500 '''') (Response 500 '''')"]
  by (simp add: sample_defs)

text \<open>
  Claim C3. A call to \<open>getToken\<close> without an explicit token and without a usable cached
  entry: when \<open>apiKey\<close> is absent (\<open>undefined\<close>, or the empty string) it throws
  \<open>MissingApiKey\<close> (the specification's InvalidArgument) and issues no request; otherwise,
  when the authentication request is answered with a status other than 200, it throws
  \<open>AuthFailed\<close> with that status (the specification's AuthenticationError). Either way
  the outcome is a thrown error, not a returned value, and the token cache of the
  context holds what it held before.
\<close>

theorem getToken_failures:
  assumes "\<not> truthy (token a)"
    and "defaultContext (context' a) w = (c, w')"
    and "\<forall>t. cacheOf (heap w' c) (str (apiKey a)) = Some t \<longrightarrow> \<not> expires t - 30 * 1000 > now rt"
  shows "(\<not> truthy (apiKey a) \<longrightarrow>
            fst (getToken rt a w) = Throws MissingApiKey
            \<and> calls (snd (getToken rt a w)) = calls w
            \<and> cacheOf (heap (snd (getToken rt a w)) c) = cacheOf (heap w' c))
       \<and> (truthy (apiKey a)
            \<and> got rt POST (str (integrationUrl (ETHOS_INTEGRATION_URL rt) (options a)) @ ''/auth'')
                  (authRequestOptions (str (apiKey a))) = Response status raw
            \<and> status \<noteq> 200 \<longrightarrow>
            fst (getToken rt a w) = Throws (AuthFailed status)
            \<and> cacheOf (heap (snd (getToken rt a w)) c) = cacheOf (heap w' c))"
  using assms(1,2) defaultContext_calls [OF assms(2)] no_usable_entry [OF assms(3)]
  by (auto simp add: getToken_def buildUrl_auth issue_def Let_def cacheOf_def)

theorem getToken_failures_witness:
  "fst (getToken (sampleRuntime (Response 401 ''denied'') (Response 500 ''''))
          (noArgs\<lparr>context' := Some 0\<rparr>) emptyWorld) = Throws MissingApiKey
   \<and> fst (getToken (sampleRuntime (Response 401 ''denied'') (Response 500 ''''))
          (noArgs\<lparr>apiKey := Some ''key'', context' := Some 0\<rparr>) emptyWorld) = Throws (AuthFailed 401)
   \<and> cacheOf (heap (snd (getToken (sampleRuntime (Response 401 ''denied'') (Response 500 ''''))
          (noArgs\<lparr>apiKey := Some ''key'', context' := Some 0\<rparr>) emptyWorld)) 0) ''key'' = None"
  using getToken_failures [where a = "noArgs\<lparr>context' := Some 0\<rparr>" and w = emptyWorld and c = 0
      and w' = emptyWorld and rt = "sampleRuntime (Response 401 ''denied'') (Response 500 '''')"]
    getToken_failures [where a = "noArgs\<lparr>apiKey := Some ''key'', context' := Some 0\<rparr>"
      and w = emptyWorld and c = 0 and w' = emptyWorld
      and rt = "sampleRuntime (Response 401 ''denied'') (Response 500 '''')"
      and status = 401 and raw = "''denied''"]
  by (simp add: sample_defs)

section \<open>Wrappers once the token is resolved\<close>

lemma getToken_explicit:
  "truthy (token a) \<Longrightarrow> defaultContext (context' a) w = (c, w') \<Longrightarrow>
   getToken rt a w = (Returns (TokenResult c (str (token a))), w')"
  by (simp add: getToken_def)

lemma getToken_counters:
  "getToken rt a w = (out, w'') \<Longrightarrow> defaultContext (context' a) w = (c, w') \<Longrightarrow>
   counters (heap w'' r) = counters (heap w' r)"
  by (auto simp add: getToken_def counters_def issue_def Let_def buildUrl_auth
      split: if_splits option.splits response.splits)

lemma getToken_result_context:
  "getToken rt a w = (Returns tr, w'') \<Longrightarrow> defaultContext (context' a) w = (c, w') \<Longrightarrow>
   result_context tr = c"
  by (auto simp add: getToken_def Let_def buildUrl_auth
      split: if_splits option.splits response.splits)

lemma explicit_resolves:
  assumes "token a = Some t" and "t \<noteq> []"
  shows "resolvesToken rt a c w' t w'"
  using assms getToken_explicit [of "a\<lparr>context' := Some c\<rparr>" w' c w' rt]
  by (simp add: resolvesToken_def truthy_def str_def defaultContext_def)

lemma get_resolved:
  assumes "defaultContext (context' a) w = (c, w')"
    and "truthy (resource a)"
    and "resolvesToken rt a c w' tok w''"
    and "resourceUrl rt a = Inr url"
  shows "get rt a w =
           ((case got rt GET url (getRequestOptions rt a tok) of
               Rejected msg \<Rightarrow> Returns (ErrorReply c (RequestError msg))
             | Response status raw \<Rightarrow>
                 if status = 200 then
                   (case JSON_parse rt raw of
                      Some v \<Rightarrow> Returns (DataReply c v)
                    | None \<Rightarrow> Returns (ErrorReply c (SyntaxError raw)))
                 else Returns (ErrorReply c (GetFailed status))),
            issue GetRequest GET url (getRequestOptions rt a tok)
              (w''\<lparr>heap := (heap w'')(c := (heap w'' c)
                    \<lparr>ethosGetCount := increment (ethosGetCount (heap w'' c))\<rparr>)\<rparr>))"
  using assms by (simp add: get_def resolvesToken_def Let_def)

lemma post_resolved:
  assumes "defaultContext (context' a) w = (c, w')"
    and "truthy (resource a)"
    and "resolvesToken rt a c w' tok w''"
    and "resourceUrl rt a = Inr url"
  shows "post rt a w =
           ((case got rt POST url (postRequestOptions rt a tok) of
               Rejected msg \<Rightarrow> Returns (ErrorReply c (RequestError msg))
             | Response status raw \<Rightarrow>
                 if status = 200 \<or> status = 201 then
                   (case JSON_parse rt raw of
                      Some v \<Rightarrow> Returns (DataReply c v)
                    | None \<Rightarrow> Returns (ErrorReply c (SyntaxError raw)))
                 else Returns (ErrorReply c (PostFailed status))),
            issue PostRequest POST url (postRequestOptions rt a tok)
              (w''\<lparr>heap := (heap w'')(c := (heap w'' c)
                    \<lparr>ethosPostCount := increment (ethosPostCount (heap w'' c))\<rparr>)\<rparr>))"
  using assms by (simp add: post_def resolvesToken_def Let_def)

lemma graphql_resolved:
  assumes "defaultContext (context' a) w = (c, w')"
    and "resolvesToken rt a c w' tok w''"
  shows "graphql rt a w =
           ((case got rt POST (str (integrationUrl (ETHOS_INTEGRATION_URL rt) (options a)) @ ''/graphql'')
                    (graphqlRequestOptions a tok) of
               Rejected msg \<Rightarrow> Throws (RequestError msg)
             | Response status raw \<Rightarrow>
                 if status = 200 then
                   (case JSON_parse rt raw of
                      Some v \<Rightarrow>
                        Returns (assign [(''context'', ContextRef c)]
                                   (map (\<lambda>p. (fst p, Member (snd p))) (ownProperties v)))
                    | None \<Rightarrow> Throws (SyntaxError raw))
                 else Throws (GraphQLFailed status)),
            issue GraphQLRequest POST
              (str (integrationUrl (ETHOS_INTEGRATION_URL rt) (options a)) @ ''/graphql'')
              (graphqlRequestOptions a tok)
              (w''\<lparr>heap := (heap w'')(c := (heap w'' c)
                    \<lparr>ethosGraphQLCount := increment (ethosGraphQLCount (heap w'' c))\<rparr>)\<rparr>))"
  using assms by (simp add: graphql_def resolvesToken_def buildUrl_graphql Let_def)

lemma get_token_throws:
  assumes "defaultContext (context' a) w = (c, w')"
    and "getToken rt (a\<lparr>context' := Some c\<rparr>) w' = (Throws err, w'')"
    and "truthy (resource a)"
  shows "get rt a w = (Throws err, w'')"
  using assms by (simp add: get_def)

lemma post_token_throws:
  assumes "defaultContext (context' a) w = (c, w')"
    and "getToken rt (a\<lparr>context' := Some c\<rparr>) w' = (Throws err, w'')"
    and "truthy (resource a)"
  shows "post rt a w = (Throws err, w'')"
  using assms by (simp add: post_def)

lemma graphql_token_throws:
  assumes "defaultContext (context' a) w = (c, w')"
    and "getToken rt (a\<lparr>context' := Some c\<rparr>) w' = (Throws err, w'')"
  shows "graphql rt a w = (Throws err, w'')"
  using assms by (simp add: graphql_def)

lemma get_bad_url:
  assumes "defaultContext (context' a) w = (c, w')"
    and "truthy (resource a)"
    and "resolvesToken rt a c w' tok w''"
    and "resourceUrl rt a = Inl err"
  shows "get rt a w = (Throws err, w'')"
  using assms by (simp add: get_def resolvesToken_def Let_def)

lemma post_bad_url:
  assumes "defaultContext (context' a) w = (c, w')"
    and "truthy (resource a)"
    and "resolvesToken rt a c w' tok w''"
    and "resourceUrl rt a = Inl err"
  shows "post rt a w = (Throws err, w'')"
  using assms by (simp add: post_def resolvesToken_def Let_def)

lemma get_world_cases:
  assumes "defaultContext (context' a) w = (c, w')" and "resolvesToken rt a c w' tok w''"
  shows "snd (get rt a w) = w' \<or> snd (get rt a w) = w''
         \<or> (\<exists>url. snd (get rt a w) = issue GetRequest GET url (getRequestOptions rt a tok)
              (w''\<lparr>heap := (heap w'')(c := (heap w'' c)
                    \<lparr>ethosGetCount := increment (ethosGetCount (heap w'' c))\<rparr>)\<rparr>))"
proof (cases "truthy (resource a)")
  case False
  then show ?thesis using assms by (simp add: get_def)
next
  case True
  show ?thesis
  proof (cases "resourceUrl rt a")
    case (Inl err)
    then show ?thesis using get_bad_url [OF assms(1) True assms(2)] by simp
  next
    case (Inr url)
    then show ?thesis
      using get_resolved [OF assms(1) True assms(2)] by (intro disjI2 exI [of _ url]) simp
  qed
qed

lemma post_world_cases:
  assumes "defaultContext (context' a) w = (c, w')" and "resolvesToken rt a c w' tok w''"
  shows "snd (post rt a w) = w' \<or> snd (post rt a w) = w''
         \<or> (\<exists>url. snd (post rt a w) = issue PostRequest POST url (postRequestOptions rt a tok)
              (w''\<lparr>heap := (heap w'')(c := (heap w'' c)
                    \<lparr>ethosPostCount := increment (ethosPostCount (heap w'' c))\<rparr>)\<rparr>))"
proof (cases "truthy (resource a)")
  case False
  then show ?thesis using assms by (simp add: post_def)
next
  case True
  show ?thesis
  proof (cases "resourceUrl rt a")
    case (Inl err)
    then show ?thesis using post_bad_url [OF assms(1) True assms(2)] by simp
  next
    case (Inr url)
    then show ?thesis
      using post_resolved [OF assms(1) True assms(2)] by (intro disjI2 exI [of _ url]) simp
  qed
qed

text \<open>Below \<open>2 ^ 53\<close> in absolute value the increment is exact.\<close>

lemma increment_counter:
  "\<bar>counter n\<bar> < 2 ^ 53 \<Longrightarrow> counter (increment n) = counter n + 1"
  by (auto simp add: counter_def increment_def nearestDouble_def split: option.splits)

text \<open>At \<open>2 ^ 53\<close> it is not: \<open>2 ^ 53 + 1\<close> lies midway between two doubles.\<close>

lemma increment_saturates: "increment (Some 9007199254740992) = Some 9007199254740992"
proof -
  have "bitlen 9007199254740993 = 54"
    by code_simp
  then show ?thesis
    by (simp add: increment_def nearestDouble_def Let_def)
qed

text \<open>Object assignment, read through the lookup of an association list.\<close>

lemma map_of_setProp: "map_of (setProp k v ps) = (map_of ps)(k \<mapsto> v)"
  by (induction ps) (auto simp add: fun_eq_iff)

lemma map_of_assign: "map_of (assign target source) = map_of target ++ map_of (rev source)"
  unfolding assign_def
proof (induction source arbitrary: target)
  case Nil
  then show ?case by simp
next
  case (Cons p source)
  show ?case
    by (cases p) (simp add: Cons.IH map_of_setProp fun_eq_iff map_add_def split: option.splits)
qed

lemma map_of_members:
  "map_of (map (\<lambda>p. (fst p, f (snd p))) ps) k = map_option f (map_of ps k)"
  by (induction ps) auto

lemma merged_keys:
  "fst ` set (assign [(''context'', ContextRef c)] (map (\<lambda>p. (fst p, Member (snd p))) ps))
     = insert ''context'' (fst ` set ps)"
proof -
  have "dom (map_of (assign [(''context'', ContextRef c)] (map (\<lambda>p. (fst p, Member (snd p))) ps)))
          = insert ''context'' (fst ` set ps)"
    by (simp add: map_of_assign dom_map_of_conv_image_fst image_image rev_map [symmetric] del: rev_map)
  then show ?thesis by (simp add: dom_map_of_conv_image_fst)
qed

lemma merged_fields:
  "map_of (rev ps) k = Some x \<Longrightarrow>
   map_of (assign [(''context'', ContextRef c)] (map (\<lambda>p. (fst p, Member (snd p))) ps)) k
     = Some (Member x)"
  by (simp add: map_of_assign rev_map map_of_members map_add_def)

lemma merged_context:
  assumes "''context'' \<notin> fst ` set ps"
  shows "map_of (assign [(''context'', ContextRef c)] (map (\<lambda>p. (fst p, Member (snd p))) ps)) ''context''
           = Some (ContextRef c)"
proof -
  from assms have "map_of (rev ps) ''context'' = None"
    by (simp add: map_of_eq_None_iff)
  then show ?thesis
    by (simp add: map_of_assign rev_map map_of_members map_add_def)
qed

section \<open>Token manager: the authentication exchange\<close>

text \<open>
  Claim C2, as it is written, at an API key that is present but empty: \<open>!apiKey\<close> holds
  for the empty string, so \<open>getToken\<close> throws \<open>MissingApiKey\<close> and issues no request,
  where the claim has it issue one authentication POST.
\<close>

theorem getToken_empty_apiKey_counterexample:
  "fst (getToken (sampleRuntime (Response 200 ''tok123'') (Response 500 ''''))
          (noArgs\<lparr>apiKey := Some '''', context' := Some 0\<rparr>) emptyWorld) = Throws MissingApiKey
   \<and> calls (snd (getToken (sampleRuntime (Response 200 ''tok123'') (Response 500 ''''))
          (noArgs\<lparr>apiKey := Some '''', context' := Some 0\<rparr>) emptyWorld)) = []"
  by (simp add: getToken_def sample_defs)

text \<open>
  Claim C2, amended. A call to \<open>getToken\<close> without an explicit token, with a non-empty
  \<open>apiKey\<close> and no usable cached entry (none, or one with \<open>expires - 30000 \<le> now\<close>)
  appends exactly one request to the trace: the authentication POST to \<open>{root}/auth\<close>
  with the API key as bearer credential. When that request is answered with status 200,
  the call returns the raw response body as the token and the context's
  \<open>tokensByApiKey\<close> is the former table with the entry for the key set to
  \<open>{token, expires = now + 300000}\<close>, whatever it held for that key before.
\<close>

theorem getToken_cache_miss:
  assumes "\<not> truthy (token a)"
    and "truthy (apiKey a)"
    and "defaultContext (context' a) w = (c, w')"
    and "\<forall>t. cacheOf (heap w' c) (str (apiKey a)) = Some t \<longrightarrow> \<not> expires t - 30 * 1000 > now rt"
  shows "calls (snd (getToken rt a w)) =
           calls w @ [Call AuthExchange POST
                        (str (integrationUrl (ETHOS_INTEGRATION_URL rt) (options a)) @ ''/auth'')
                        (authRequestOptions (str (apiKey a)))]
         \<and> (got rt POST (str (integrationUrl (ETHOS_INTEGRATION_URL rt) (options a)) @ ''/auth'')
                 (authRequestOptions (str (apiKey a))) = Response 200 raw \<longrightarrow>
              fst (getToken rt a w) = Returns (TokenResult c raw)
              \<and> tokensByApiKey (heap (snd (getToken rt a w)) c) =
                  Some ((cacheOf (heap w' c))(str (apiKey a) \<mapsto> Cached (now rt + 300000) raw)))"
  using assms(1-3) defaultContext_calls [OF assms(3)] no_usable_entry [OF assms(4)]
  by (auto simp add: getToken_def buildUrl_auth issue_def Let_def split: response.splits)

text \<open>
  The token cached for \<open>key\<close> expires at 1030000, exactly 30 seconds after the clock
  reading, so it is no longer usable and is overwritten.
\<close>

theorem getToken_cache_miss_witness:
  "calls (snd (getToken (sampleRuntime (Response 200 ''tok123'') (Response 500 ''''))
          (noArgs\<lparr>apiKey := Some ''key'', context' := Some 0\<rparr>) (cachedWorld 1030000)))
     = [Call AuthExchange POST ''https://ethos.example/auth''
          \<lparr>req_headers = [(''Accept'', ''application/json''), (''Cache-Control'', ''no-cache''),
                          (''Authorization'', ''Bearer key'')],
           req_searchParams = None, req_json = None\<rparr>]
   \<and> fst (getToken (sampleRuntime (Response 200 ''tok123'') (Response 500 ''''))
          (noArgs\<lparr>apiKey := Some ''key'', context' := Some 0\<rparr>) (cachedWorld 1030000))
     = Returns (TokenResult 0 ''tok123'')
   \<and> cacheOf (heap (snd (getToken (sampleRuntime (Response 200 ''tok123'') (Response 500 ''''))
          (noArgs\<lparr>apiKey := Some ''key'', context' := Some 0\<rparr>) (cachedWorld 1030000))) 0) ''key''
     = Some (Cached 1300000 ''tok123'')"
  using getToken_cache_miss [where a = "noArgs\<lparr>apiKey := Some ''key'', context' := Some 0\<rparr>"
      and w = "cachedWorld 1030000" and c = 0 and w' = "cachedWorld 1030000"
      and rt = "sampleRuntime (Response 200 ''tok123'') (Response 500 '''')"
      and raw = "''tok123''"]
  by (simp add: sample_defs authRequestOptions_headers)

section \<open>Explicit token\<close>

text \<open>
  Claim C4, as it is written, at a token that is supplied but empty: \<open>if (token)\<close> is
  false for the empty string, so \<open>getToken\<close> goes on to the cache and, finding nothing,
  to the authentication exchange. It returns the provider's token, not the supplied one,
  after one authentication request, and caches it.
\<close>

theorem getToken_empty_token_counterexample:
  "fst (getToken (sampleRuntime (Response 200 ''tok123'') (Response 500 ''''))
          (noArgs\<lparr>apiKey := Some ''key'', context' := Some 0, token := Some ''''\<rparr>) emptyWorld)
     = Returns (TokenResult 0 ''tok123'')
   \<and> length (authCalls (snd (getToken (sampleRuntime (Response 200 ''tok123'') (Response 500 ''''))
          (noArgs\<lparr>apiKey := Some ''key'', context' := Some 0, token := Some ''''\<rparr>) emptyWorld))) = 1
   \<and> cacheOf (heap (snd (getToken (sampleRuntime (Response 200 ''tok123'') (Response 500 ''''))
          (noArgs\<lparr>apiKey := Some ''key'', context' := Some 0, token := Some ''''\<rparr>) emptyWorld)) 0) ''key''
     = Some (Cached 1300000 ''tok123'')"
  by (simp add: getToken_def sample_defs buildUrl_auth issue_def authCalls_def Let_def)

text \<open>
  Claim C4, amended. With an explicitly supplied, non-empty token, \<open>getToken\<close> returns
  that token and the context and changes nothing: the world it leaves is the world after
  the parameter default, which is the caller's world when the caller supplied the
  context. \<open>get\<close>, \<open>post\<close> and \<open>graphql\<close> called with such a token add no authentication
  exchange to the trace, and leave \<open>tokensByApiKey\<close> of every object as it was, whatever
  the context held and whatever they go on to do.
\<close>

theorem explicit_token_bypass:
  assumes "token a = Some t" and "t \<noteq> []" and "defaultContext (context' a) w = (c, w')"
  shows "getToken rt a w = (Returns (TokenResult c t), w')
       \<and> (\<forall>given. context' a = Some given \<longrightarrow> c = given \<and> w' = w)
       \<and> authCalls (snd (get rt a w)) = authCalls w
       \<and> (\<forall>r. tokensByApiKey (heap (snd (get rt a w)) r) = tokensByApiKey (heap w' r))
       \<and> authCalls (snd (post rt a w)) = authCalls w
       \<and> (\<forall>r. tokensByApiKey (heap (snd (post rt a w)) r) = tokensByApiKey (heap w' r))
       \<and> authCalls (snd (graphql rt a w)) = authCalls w
       \<and> (\<forall>r. tokensByApiKey (heap (snd (graphql rt a w)) r) = tokensByApiKey (heap w' r))"
proof -
  have res: "resolvesToken rt a c w' t w'"
    by (rule explicit_resolves [OF assms(1,2)])
  have trace: "calls w' = calls w"
    by (rule defaultContext_calls [OF assms(3)])
  have tok: "getToken rt a w = (Returns (TokenResult c t), w')"
    using getToken_explicit [OF _ assms(3), of rt] assms(1,2) by (simp add: truthy_def str_def)
  have given: "\<forall>given. context' a = Some given \<longrightarrow> c = given \<and> w' = w"
    using assms(3) by (auto simp add: defaultContext_def)
  have g: "authCalls (snd (get rt a w)) = authCalls w
           \<and> (\<forall>r. tokensByApiKey (heap (snd (get rt a w)) r) = tokensByApiKey (heap w' r))"
    using get_world_cases [OF assms(3) res] trace
    by (auto simp add: authCalls_def issue_def)
  have p: "authCalls (snd (post rt a w)) = authCalls w
           \<and> (\<forall>r. tokensByApiKey (heap (snd (post rt a w)) r) = tokensByApiKey (heap w' r))"
    using post_world_cases [OF assms(3) res] trace
    by (auto simp add: authCalls_def issue_def)
  have q: "authCalls (snd (graphql rt a w)) = authCalls w
           \<and> (\<forall>r. tokensByApiKey (heap (snd (graphql rt a w)) r) = tokensByApiKey (heap w' r))"
    using trace unfolding graphql_resolved [OF assms(3) res]
    by (auto simp add: authCalls_def issue_def)
  show ?thesis using tok given g p q by blast
qed

theorem explicit_token_bypass_witness:
  "getToken (sampleRuntime (Response 200 ''tok123'') (Response 200 bodyA))
     (noArgs\<lparr>apiKey := Some ''key'', context' := Some 0, resource := Some ''students'',
             token := Some ''t''\<rparr>) emptyWorld
     = (Returns (TokenResult 0 ''t''), emptyWorld)
   \<and> authCalls (snd (get (sampleRuntime (Response 200 ''tok123'') (Response 200 bodyA))
     (noArgs\<lparr>apiKey := Some ''key'', context' := Some 0, resource := Some ''students'',
             token := Some ''t''\<rparr>) emptyWorld)) = []
   \<and> tokensByApiKey (heap (snd (get (sampleRuntime (Response 200 ''tok123'') (Response 200 bodyA))
     (noArgs\<lparr>apiKey := Some ''key'', context' := Some 0, resource := Some ''students'',
             token := Some ''t''\<rparr>) emptyWorld)) 0) = None
   \<and> authCalls (snd (post (sampleRuntime (Response 200 ''tok123'') (Response 200 bodyA))
     (noArgs\<lparr>apiKey := Some ''key'', context' := Some 0, resource := Some ''students'',
             token := Some ''t''\<rparr>) emptyWorld)) = []
   \<and> authCalls (snd (graphql (sampleRuntime (Response 200 ''tok123'') (Response 200 bodyA))
     (noArgs\<lparr>apiKey := Some ''key'', context' := Some 0, resource := Some ''students'',
             token := Some ''t''\<rparr>) emptyWorld)) = []"
  using explicit_token_bypass [where a = "noArgs\<lparr>apiKey := Some ''key'', context' := Some 0,
        resource := Some ''students'', token := Some ''t''\<rparr>"
      and t = "''t''" and w = emptyWorld and c = 0 and w' = emptyWorld
      and rt = "sampleRuntime (Response 200 ''tok123'') (Response 200 bodyA)"]
  by (simp add: sample_defs authCalls_def)

section \<open>Results of the wrappers\<close>

text \<open>
  Claim C5. A \<open>get\<close> or \<open>post\<close> call with a non-empty resource whose token resolution
  succeeds with a usable token, and whose request is issued to \<open>url\<close>: when the response
  has status 200 (for \<open>post\<close>: 200 or 201) and its body parses as JSON to \<open>v\<close>, the call
  returns \<open>{context, data: v}\<close>; when the response has any other status, or the HTTP client
  throws, the call returns the error-result \<open>{context, error}\<close>. In every case the call
  returns and its result holds the context: nothing that happens from the request on is
  thrown to the caller. (The request exists once \<open>buildUrl\<close> has produced its target.)
\<close>

theorem get_post_results:
  assumes "defaultContext (context' a) w = (c, w')"
    and "truthy (resource a)"
    and "resolvesToken rt a c w' tok w''"
    and "resourceUrl rt a = Inr url"
  shows "(got rt GET url (getRequestOptions rt a tok) = Response 200 raw
            \<and> JSON_parse rt raw = Some v
            \<longrightarrow> fst (get rt a w) = Returns (DataReply c v))
       \<and> (got rt GET url (getRequestOptions rt a tok) = Response status raw \<and> status \<noteq> 200
            \<longrightarrow> fst (get rt a w) = Returns (ErrorReply c (GetFailed status)))
       \<and> (got rt GET url (getRequestOptions rt a tok) = Rejected msg
            \<longrightarrow> fst (get rt a w) = Returns (ErrorReply c (RequestError msg)))
       \<and> (got rt POST url (postRequestOptions rt a tok) = Response status raw
            \<and> (status = 200 \<or> status = 201) \<and> JSON_parse rt raw = Some v
            \<longrightarrow> fst (post rt a w) = Returns (DataReply c v))
       \<and> (got rt POST url (postRequestOptions rt a tok) = Response status raw
            \<and> status \<noteq> 200 \<and> status \<noteq> 201
            \<longrightarrow> fst (post rt a w) = Returns (ErrorReply c (PostFailed status)))
       \<and> (got rt POST url (postRequestOptions rt a tok) = Rejected msg
            \<longrightarrow> fst (post rt a w) = Returns (ErrorReply c (RequestError msg)))
       \<and> (\<exists>r. fst (get rt a w) = Returns r \<and> reply_context r = c)
       \<and> (\<exists>r. fst (post rt a w) = Returns r \<and> reply_context r = c)"
  unfolding get_resolved [OF assms] post_resolved [OF assms]
  by (auto split: response.splits option.splits)

theorem get_post_results_witness:
  "fst (get (sampleRuntime (Response 500 '''') (Response 200 bodyA))
          (noArgs\<lparr>context' := Some 0, resource := Some ''students'', token := Some ''t''\<rparr>) emptyWorld)
     = Returns (DataReply 0 (JObj [(''a'', JNum 1)]))
   \<and> fst (post (sampleRuntime (Response 500 '''') (Response 201 bodyA))
          (noArgs\<lparr>context' := Some 0, resource := Some ''students'', token := Some ''t''\<rparr>) emptyWorld)
     = Returns (DataReply 0 (JObj [(''a'', JNum 1)]))
   \<and> fst (get (sampleRuntime (Response 500 '''') (Response 404 bodyHtml))
          (noArgs\<lparr>context' := Some 0, resource := Some ''students'', token := Some ''t''\<rparr>) emptyWorld)
     = Returns (ErrorReply 0 (GetFailed 404))
   \<and> fst (post (sampleRuntime (Response 500 '''') (Response 404 bodyHtml))
          (noArgs\<lparr>context' := Some 0, resource := Some ''students'', token := Some ''t''\<rparr>) emptyWorld)
     = Returns (ErrorReply 0 (PostFailed 404))
   \<and> fst (get (sampleRuntime (Response 500 '''') (Rejected ''ECONNREFUSED''))
          (noArgs\<lparr>context' := Some 0, resource := Some ''students'', token := Some ''t''\<rparr>) emptyWorld)
     = Returns (ErrorReply 0 (RequestError ''ECONNREFUSED''))"
  using get_post_results [where a = "noArgs\<lparr>context' := Some 0, resource := Some ''students'',
        token := Some ''t''\<rparr>" and w = emptyWorld and c = 0 and w' = emptyWorld and tok = "''t''"
      and w'' = emptyWorld and url = "''https://ethos.example/api/students''"
      and rt = "sampleRuntime (Response 500 '''') (Response 200 bodyA)"
      and raw = bodyA and v = "JObj [(''a'', JNum 1)]"]
    get_post_results [where a = "noArgs\<lparr>context' := Some 0, resource := Some ''students'',
        token := Some ''t''\<rparr>" and w = emptyWorld and c = 0 and w' = emptyWorld and tok = "''t''"
      and w'' = emptyWorld and url = "''https://ethos.example/api/students''"
      and rt = "sampleRuntime (Response 500 '''') (Response 201 bodyA)"
      and raw = bodyA and v = "JObj [(''a'', JNum 1)]" and status = 201]
    get_post_results [where a = "noArgs\<lparr>context' := Some 0, resource := Some ''students'',
        token := Some ''t''\<rparr>" and w = emptyWorld and c = 0 and w' = emptyWorld and tok = "''t''"
      and w'' = emptyWorld and url = "''https://ethos.example/api/students''"
      and rt = "sampleRuntime (Response 500 '''') (Response 404 bodyHtml)"
      and raw = bodyHtml and status = 404]
    get_post_results [where a = "noArgs\<lparr>context' := Some 0, resource := Some ''students'',
        token := Some ''t''\<rparr>" and w = emptyWorld and c = 0 and w' = emptyWorld and tok = "''t''"
      and w'' = emptyWorld and url = "''https://ethos.example/api/students''"
      and rt = "sampleRuntime (Response 500 '''') (Rejected ''ECONNREFUSED'')"
      and msg = "''ECONNREFUSED''"]
  by (simp add: sample_defs explicit_resolves resourceUrl_def buildUrl_def sampleParse_def)

text \<open>
  Claim C6. A \<open>graphql\<close> call whose token resolution succeeds with a usable token: when
  the response has status 200 and its body parses as JSON to \<open>v\<close>, the call returns an
  object that holds every top-level field of \<open>v\<close> with its value, holds the context
  under \<open>context\<close> when \<open>v\<close> has no field of that name, and has no other property;
  (\<open>map_of (rev ps)\<close> is the lookup in the property list \<open>ps\<close> in which a later
  entry of the same name wins, as it does in the spread; in what \<open>JSON.parse\<close> returns
  the names are distinct.) When the response has any other status, the call throws \<open>GraphQLFailed\<close> with that
  status (the specification's IntegrationError) and so returns no result at all.
\<close>

theorem graphql_results:
  assumes "defaultContext (context' a) w = (c, w')"
    and "resolvesToken rt a c w' tok w''"
  shows "(got rt POST (str (integrationUrl (ETHOS_INTEGRATION_URL rt) (options a)) @ ''/graphql'')
                (graphqlRequestOptions a tok) = Response 200 raw
            \<and> JSON_parse rt raw = Some v
            \<longrightarrow> (\<exists>obj. fst (graphql rt a w) = Returns obj
                   \<and> (\<forall>k x. map_of (rev (ownProperties v)) k = Some x
                          \<longrightarrow> map_of obj k = Some (Member x))
                   \<and> (''context'' \<notin> fst ` set (ownProperties v)
                          \<longrightarrow> map_of obj ''context'' = Some (ContextRef c))
                   \<and> fst ` set obj = insert ''context'' (fst ` set (ownProperties v))))
       \<and> (got rt POST (str (integrationUrl (ETHOS_INTEGRATION_URL rt) (options a)) @ ''/graphql'')
                (graphqlRequestOptions a tok) = Response status raw
            \<and> status \<noteq> 200
            \<longrightarrow> fst (graphql rt a w) = Throws (GraphQLFailed status))"
  unfolding graphql_resolved [OF assms]
  by (auto simp add: merged_keys merged_fields merged_context simp del: map_of_eq_Some_iff)

theorem graphql_results_witness:
  "(\<exists>obj. fst (graphql (sampleRuntime (Response 500 '''') (Response 200 bodyData))
                 (noArgs\<lparr>context' := Some 0, token := Some ''t''\<rparr>) emptyWorld) = Returns obj
          \<and> map_of obj ''data'' = Some (Member JNull)
          \<and> map_of obj ''context'' = Some (ContextRef 0)
          \<and> fst ` set obj = {''context'', ''data''})
   \<and> fst (graphql (sampleRuntime (Response 500 '''') (Response 503 bodyHtml))
                 (noArgs\<lparr>context' := Some 0, token := Some ''t''\<rparr>) emptyWorld)
       = Throws (GraphQLFailed 503)"
proof -
  have first: "\<exists>obj. fst (graphql (sampleRuntime (Response 500 '''') (Response 200 bodyData))
                 (noArgs\<lparr>context' := Some 0, token := Some ''t''\<rparr>) emptyWorld) = Returns obj
          \<and> map_of obj ''data'' = Some (Member JNull)
          \<and> map_of obj ''context'' = Some (ContextRef 0)
          \<and> fst ` set obj = {''context'', ''data''}"
    using graphql_results [where a = "noArgs\<lparr>context' := Some 0, token := Some ''t''\<rparr>"
        and w = emptyWorld and c = 0 and w' = emptyWorld and tok = "''t''" and w'' = emptyWorld
        and rt = "sampleRuntime (Response 500 '''') (Response 200 bodyData)"
        and raw = bodyData and v = "JObj [(''data'', JNull)]"]
    by (auto simp add: sample_defs explicit_resolves sampleParse_def bodyA_def bodyData_def)
  have second: "fst (graphql (sampleRuntime (Response 500 '''') (Response 503 bodyHtml))
                 (noArgs\<lparr>context' := Some 0, token := Some ''t''\<rparr>) emptyWorld)
       = Throws (GraphQLFailed 503)"
    using graphql_results [where a = "noArgs\<lparr>context' := Some 0, token := Some ''t''\<rparr>"
        and w = emptyWorld and c = 0 and w' = emptyWorld and tok = "''t''" and w'' = emptyWorld
        and rt = "sampleRuntime (Response 500 '''') (Response 503 bodyHtml)"
        and raw = bodyHtml and status = 503]
    by (simp add: sample_defs explicit_resolves)
  from first second show ?thesis by blast
qed

section \<open>URL builder\<close>

text \<open>
  Claim C7, as it is written, at an id that is given but empty: \<open>id ? '/' + id : ''\<close>
  takes the empty string for no id, so nothing is appended, where appending \<open>/{id}\<close>
  would end the URL in a slash.
\<close>

theorem buildUrl_empty_id_counterexample:
  "buildUrl (Some ''https://ethos.example'') (Some ''api'') (Some '''') None (Some ''students'')
     = Inr ''https://ethos.example/api/students''
   \<and> buildUrl (Some ''https://ethos.example'') (Some ''api'') (Some '''') None (Some ''students'')
     \<noteq> Inr (''https://ethos.example/api/students'' @ ''/'' @ '''')"
  by (simp add: buildUrl_def integrationUrl_def truthy_def str_def)

text \<open>
  Claim C7, amended. With \<open>{root}\<close> the text of the configured integration URL:
  \<open>buildUrl\<close> with base \<open>api\<close> or \<open>admin\<close> returns \<open>{root}/{base}/{resource}\<close>, with
  \<open>/{id}\<close> appended exactly when a non-empty id is given; with base \<open>auth\<close> or \<open>graphql\<close>
  it returns \<open>{root}/{base}\<close> whatever the resource and the id are; with any other base
  it throws \<open>UnknownBase\<close> (the specification's ConfigurationError).
\<close>

theorem buildUrl_cases:
  "(b = ''api'' \<or> b = ''admin'' \<longrightarrow>
      buildUrl env (Some b) i opts (Some r) =
        Inr (str (integrationUrl env opts) @ ''/'' @ b @ ''/'' @ r
             @ (case i of None \<Rightarrow> '''' | Some given \<Rightarrow> if given = '''' then '''' else ''/'' @ given)))
   \<and> (b = ''auth'' \<or> b = ''graphql'' \<longrightarrow>
      buildUrl env (Some b) i opts res = Inr (str (integrationUrl env opts) @ ''/'' @ b))
   \<and> (b \<noteq> ''api'' \<and> b \<noteq> ''admin'' \<and> b \<noteq> ''auth'' \<and> b \<noteq> ''graphql'' \<longrightarrow>
      buildUrl env (Some b) i opts res = Inl (UnknownBase b))"
  by (auto simp add: buildUrl_def truthy_def str_def split: option.splits)

theorem buildUrl_cases_witness:
  "buildUrl (Some ''https://ethos.example'') (Some ''api'') (Some ''123'') None (Some ''students'')
     = Inr ''https://ethos.example/api/students/123''
   \<and> buildUrl (Some ''https://ethos.example'') (Some ''admin'') None None (Some ''students'')
     = Inr ''https://ethos.example/admin/students''
   \<and> buildUrl (Some ''https://ethos.example'') (Some ''auth'') (Some ''123'') None (Some ''students'')
     = Inr ''https://ethos.example/auth''
   \<and> buildUrl (Some ''https://ethos.example'') (Some ''unknown'') None None None
     = Inl (UnknownBase ''unknown'')"
  using buildUrl_cases [where b = "''api''" and env = "Some ''https://ethos.example''"
      and i = "Some ''123''" and opts = None and r = "''students''"]
    buildUrl_cases [where b = "''admin''" and env = "Some ''https://ethos.example''"
      and i = None and opts = None and r = "''students''"]
    buildUrl_cases [where b = "''auth''" and env = "Some ''https://ethos.example''"
      and i = "Some ''123''" and opts = None and res = "Some ''students''"]
    buildUrl_cases [where b = "''unknown''" and env = "Some ''https://ethos.example''"
      and i = None and opts = None and res = None]
  by (simp add: integrationUrl_def truthy_def str_def)

section \<open>Call counters\<close>

lemma unresolved_token:
  assumes "\<forall>t u. \<not> resolvesToken rt a c w' t u"
  shows "(\<exists>err u. getToken rt (a\<lparr>context' := Some c\<rparr>) w' = (Throws err, u))
         \<or> (\<exists>u. getToken rt (a\<lparr>context' := Some c\<rparr>) w' = (Returns (TokenResult c []), u))"
proof -
  obtain out u where gt: "getToken rt (a\<lparr>context' := Some c\<rparr>) w' = (out, u)"
    by (cases "getToken rt (a\<lparr>context' := Some c\<rparr>) w'") blast
  show ?thesis
  proof (cases out)
    case (Throws err)
    with gt show ?thesis by blast
  next
    case (Returns tr)
    obtain c2 tok where tr: "tr = TokenResult c2 tok" by (cases tr) blast
    have "c2 = c"
      using getToken_result_context [of rt "a\<lparr>context' := Some c\<rparr>" w' tr u c w'] gt Returns tr
      by (simp add: defaultContext_def)
    moreover have "tok = []"
      using assms gt Returns tr \<open>c2 = c\<close> by (auto simp add: resolvesToken_def)
    ultimately show ?thesis using gt Returns tr by blast
  qed
qed

lemma token_step_counters:
  "counters (heap (snd (getToken rt (a\<lparr>context' := Some c\<rparr>) w')) r) = counters (heap w' r)"
  using getToken_counters [of rt "a\<lparr>context' := Some c\<rparr>" w' _ _ c w' r]
  by (cases "getToken rt (a\<lparr>context' := Some c\<rparr>) w'") (simp add: defaultContext_def)

lemma get_unresolved_counters:
  assumes "defaultContext (context' a) w = (c, w')"
    and "\<forall>t u. \<not> resolvesToken rt a c w' t u"
  shows "counters (heap (snd (get rt a w)) r) = counters (heap w' r)"
proof (cases "truthy (resource a)")
  case False
  then show ?thesis using assms(1) by (simp add: get_def)
next
  case True
  have "snd (get rt a w) = snd (getToken rt (a\<lparr>context' := Some c\<rparr>) w')"
    using unresolved_token [OF assms(2)] assms(1) True by (auto simp add: get_def)
  then show ?thesis by (simp add: token_step_counters)
qed

lemma post_unresolved_counters:
  assumes "defaultContext (context' a) w = (c, w')"
    and "\<forall>t u. \<not> resolvesToken rt a c w' t u"
  shows "counters (heap (snd (post rt a w)) r) = counters (heap w' r)"
proof (cases "truthy (resource a)")
  case False
  then show ?thesis using assms(1) by (simp add: post_def)
next
  case True
  have "snd (post rt a w) = snd (getToken rt (a\<lparr>context' := Some c\<rparr>) w')"
    using unresolved_token [OF assms(2)] assms(1) True by (auto simp add: post_def)
  then show ?thesis by (simp add: token_step_counters)
qed

lemma graphql_unresolved_counters:
  assumes "defaultContext (context' a) w = (c, w')"
    and "\<forall>t u. \<not> resolvesToken rt a c w' t u"
  shows "counters (heap (snd (graphql rt a w)) r) = counters (heap w' r)"
proof -
  have "snd (graphql rt a w) = snd (getToken rt (a\<lparr>context' := Some c\<rparr>) w')"
    using unresolved_token [OF assms(2)] assms(1) by (auto simp add: graphql_def)
  then show ?thesis by (simp add: token_step_counters)
qed

lemma resolved_counters:
  assumes "resolvesToken rt a c w' tok w''"
  shows "counters (heap w'' r) = counters (heap w' r)"
  using assms token_step_counters [where rt = rt and a = a and c = c and w' = w' and r = r]
  by (simp add: resolvesToken_def)

lemma get_counts:
  assumes "defaultContext (context' a) w = (c, w')"
    and "truthy (resource a)"
    and "resolvesToken rt a c w' tok w''"
    and "resourceUrl rt a = Inr url"
    and "\<bar>counter (ethosGetCount (heap w' c))\<bar> < 2 ^ 53"
  shows "counter (ethosGetCount (heap (snd (get rt a w)) c)) = counter (ethosGetCount (heap w' c)) + 1
       \<and> ethosGraphQLCount (heap (snd (get rt a w)) c) = ethosGraphQLCount (heap w' c)
       \<and> ethosPostCount (heap (snd (get rt a w)) c) = ethosPostCount (heap w' c)"
  using resolved_counters [OF assms(3), of c] increment_counter [OF assms(5)]
  unfolding get_resolved [OF assms(1-4)]
  by (simp add: issue_def counters_def)

lemma post_counts:
  assumes "defaultContext (context' a) w = (c, w')"
    and "truthy (resource a)"
    and "resolvesToken rt a c w' tok w''"
    and "resourceUrl rt a = Inr url"
    and "\<bar>counter (ethosPostCount (heap w' c))\<bar> < 2 ^ 53"
  shows "counter (ethosPostCount (heap (snd (post rt a w)) c)) = counter (ethosPostCount (heap w' c)) + 1
       \<and> ethosGetCount (heap (snd (post rt a w)) c) = ethosGetCount (heap w' c)
       \<and> ethosGraphQLCount (heap (snd (post rt a w)) c) = ethosGraphQLCount (heap w' c)"
  using resolved_counters [OF assms(3), of c] increment_counter [OF assms(5)]
  unfolding post_resolved [OF assms(1-4)]
  by (simp add: issue_def counters_def)

lemma graphql_counts:
  assumes "defaultContext (context' a) w = (c, w')"
    and "resolvesToken rt a c w' tok w''"
    and "\<bar>counter (ethosGraphQLCount (heap w' c))\<bar> < 2 ^ 53"
  shows "counter (ethosGraphQLCount (heap (snd (graphql rt a w)) c))
           = counter (ethosGraphQLCount (heap w' c)) + 1
       \<and> ethosGetCount (heap (snd (graphql rt a w)) c) = ethosGetCount (heap w' c)
       \<and> ethosPostCount (heap (snd (graphql rt a w)) c) = ethosPostCount (heap w' c)"
  using resolved_counters [OF assms(2), of c] increment_counter [OF assms(3)]
  unfolding graphql_resolved [OF assms(1,2)]
  by (simp add: issue_def counters_def)

lemma bad_url_counters:
  assumes "defaultContext (context' a) w = (c, w')"
    and "resourceUrl rt a = Inl err"
  shows "counters (heap (snd (get rt a w)) r) = counters (heap w' r)
       \<and> counters (heap (snd (post rt a w)) r) = counters (heap w' r)"
proof (cases "\<exists>t u. resolvesToken rt a c w' t u")
  case False
  then show ?thesis
    using get_unresolved_counters [OF assms(1)] post_unresolved_counters [OF assms(1)] by blast
next
  case True
  then obtain t u where res: "resolvesToken rt a c w' t u" by blast
  show ?thesis
  proof (cases "truthy (resource a)")
    case False
    then show ?thesis using assms(1) by (simp add: get_def post_def)
  next
    case True
    show ?thesis
      using resolved_counters [OF res, of r]
      unfolding get_bad_url [OF assms(1) True res assms(2)]
        post_bad_url [OF assms(1) True res assms(2)]
      by simp
  qed
qed

text \<open>
  Claim C8, as it is written, at two calls. A \<open>get\<close> call with an unknown base: token
  resolution succeeds with the usable token \<open>t\<close>, yet \<open>buildUrl\<close> throws before the line
  that increments \<open>ethosGetCount\<close>, so the counter is what it was. And a \<open>get\<close> call, with
  the default base, on a context whose \<open>ethosGetCount\<close> is \<open>2 ^ 53 = 9007199254740992\<close>:
  the line \<open>n ? n + 1 : 1\<close> runs, but the sum rounds back to \<open>2 ^ 53\<close>, so the counter
  does not grow by one.
\<close>

theorem get_unknown_base_counterexample:
  "resolvesToken (sampleRuntime (Response 500 '''') (Response 200 bodyA))
     (noArgs\<lparr>base := Some ''foo'', context' := Some 0, resource := Some ''students'',
             token := Some ''t''\<rparr>) 0 emptyWorld ''t'' emptyWorld
   \<and> fst (get (sampleRuntime (Response 500 '''') (Response 200 bodyA))
     (noArgs\<lparr>base := Some ''foo'', context' := Some 0, resource := Some ''students'',
             token := Some ''t''\<rparr>) emptyWorld) = Throws (UnknownBase ''foo'')
   \<and> counter (ethosGetCount (heap (snd (get (sampleRuntime (Response 500 '''') (Response 200 bodyA))
     (noArgs\<lparr>base := Some ''foo'', context' := Some 0, resource := Some ''students'',
             token := Some ''t''\<rparr>) emptyWorld)) 0))
     \<noteq> counter (ethosGetCount (heap emptyWorld 0)) + 1
   \<and> resolvesToken (sampleRuntime (Response 500 '''') (Response 200 bodyA))
     (noArgs\<lparr>context' := Some 0, resource := Some ''students'', token := Some ''t''\<rparr>)
     0 (countedWorld 9007199254740992) ''t'' (countedWorld 9007199254740992)
   \<and> ethosGetCount (heap (snd (get (sampleRuntime (Response 500 '''') (Response 200 bodyA))
     (noArgs\<lparr>context' := Some 0, resource := Some ''students'', token := Some ''t''\<rparr>)
     (countedWorld 9007199254740992))) 0) = Some 9007199254740992
   \<and> counter (ethosGetCount (heap (snd (get (sampleRuntime (Response 500 '''') (Response 200 bodyA))
     (noArgs\<lparr>context' := Some 0, resource := Some ''students'', token := Some ''t''\<rparr>)
     (countedWorld 9007199254740992))) 0))
     \<noteq> counter (ethosGetCount (heap (countedWorld 9007199254740992) 0)) + 1"
proof -
  have unknown: "resolvesToken (sampleRuntime (Response 500 '''') (Response 200 bodyA))
       (noArgs\<lparr>base := Some ''foo'', context' := Some 0, resource := Some ''students'',
               token := Some ''t''\<rparr>) 0 emptyWorld ''t'' emptyWorld
     \<and> fst (get (sampleRuntime (Response 500 '''') (Response 200 bodyA))
       (noArgs\<lparr>base := Some ''foo'', context' := Some 0, resource := Some ''students'',
               token := Some ''t''\<rparr>) emptyWorld) = Throws (UnknownBase ''foo'')
     \<and> counter (ethosGetCount (heap (snd (get (sampleRuntime (Response 500 '''') (Response 200 bodyA))
       (noArgs\<lparr>base := Some ''foo'', context' := Some 0, resource := Some ''students'',
               token := Some ''t''\<rparr>) emptyWorld)) 0))
       \<noteq> counter (ethosGetCount (heap emptyWorld 0)) + 1"
    by (simp add: get_def getToken_def resolvesToken_def resourceUrl_def buildUrl_def counter_def
        sample_defs)
  have dc: "defaultContext
              (context' (noArgs\<lparr>context' := Some 0, resource := Some ''students'', token := Some ''t''\<rparr>))
              (countedWorld 9007199254740992) = (0, countedWorld 9007199254740992)"
    by (simp add: defaultContext_def)
  have tr: "truthy (resource (noArgs\<lparr>context' := Some 0, resource := Some ''students'',
              token := Some ''t''\<rparr>))"
    by (simp add: truthy_def)
  have res: "resolvesToken (sampleRuntime (Response 500 '''') (Response 200 bodyA))
               (noArgs\<lparr>context' := Some 0, resource := Some ''students'', token := Some ''t''\<rparr>)
               0 (countedWorld 9007199254740992) ''t'' (countedWorld 9007199254740992)"
    by (rule explicit_resolves) (simp_all add: noArgs_def)
  have url: "resourceUrl (sampleRuntime (Response 500 '''') (Response 200 bodyA))
               (noArgs\<lparr>context' := Some 0, resource := Some ''students'', token := Some ''t''\<rparr>)
             = Inr ''https://ethos.example/api/students''"
    by (simp add: resourceUrl_def buildUrl_def sample_defs)
  have stuck: "ethosGetCount (heap (snd (get (sampleRuntime (Response 500 '''') (Response 200 bodyA))
       (noArgs\<lparr>context' := Some 0, resource := Some ''students'', token := Some ''t''\<rparr>)
       (countedWorld 9007199254740992))) 0) = Some 9007199254740992"
    unfolding get_resolved [OF dc tr res url]
    by (simp add: issue_def countedWorld_def emptyWorld_def emptyContext_def increment_saturates)
  have before: "counter (ethosGetCount (heap (countedWorld 9007199254740992) 0)) = 9007199254740992"
    by (simp add: countedWorld_def emptyWorld_def emptyContext_def counter_def)
  show ?thesis
    using unknown res stuck before by (simp add: counter_def)
qed

text \<open>
  Claim C8, amended. Counters are compared with the world \<open>w'\<close> the call starts from
  once its parameter defaults are in place (the caller's world when the caller supplied
  the context). A \<open>get\<close> or \<open>post\<close> call with a non-empty resource, whose token resolution
  succeeds with a usable token and whose target URL \<open>buildUrl\<close> can build (base absent,
  or one of \<open>api\<close>, \<open>admin\<close>, \<open>auth\<close>, \<open>graphql\<close>), on a context whose own counter is
  below \<open>2 ^ 53\<close> in absolute value (an unset counter counting as 0), increments that
  counter by exactly one and leaves the other two unchanged, whatever the response is; so
  does every \<open>graphql\<close> call whose token resolution succeeds with a usable token, under
  the same bound on its counter. When token resolution does not succeed with a usable
  token, and when \<open>buildUrl\<close> throws, no counter of any object changes.
\<close>

theorem wrapper_counters:
  assumes "defaultContext (context' a) w = (c, w')"
  shows "(truthy (resource a) \<and> resolvesToken rt a c w' tok w'' \<and> resourceUrl rt a = Inr url
            \<and> \<bar>counter (ethosGetCount (heap w' c))\<bar> < 2 ^ 53 \<longrightarrow>
            counter (ethosGetCount (heap (snd (get rt a w)) c))
              = counter (ethosGetCount (heap w' c)) + 1
            \<and> ethosGraphQLCount (heap (snd (get rt a w)) c) = ethosGraphQLCount (heap w' c)
            \<and> ethosPostCount (heap (snd (get rt a w)) c) = ethosPostCount (heap w' c))
       \<and> (truthy (resource a) \<and> resolvesToken rt a c w' tok w'' \<and> resourceUrl rt a = Inr url
            \<and> \<bar>counter (ethosPostCount (heap w' c))\<bar> < 2 ^ 53 \<longrightarrow>
            counter (ethosPostCount (heap (snd (post rt a w)) c))
              = counter (ethosPostCount (heap w' c)) + 1
            \<and> ethosGetCount (heap (snd (post rt a w)) c) = ethosGetCount (heap w' c)
            \<and> ethosGraphQLCount (heap (snd (post rt a w)) c) = ethosGraphQLCount (heap w' c))
       \<and> (resolvesToken rt a c w' tok w''
            \<and> \<bar>counter (ethosGraphQLCount (heap w' c))\<bar> < 2 ^ 53 \<longrightarrow>
            counter (ethosGraphQLCount (heap (snd (graphql rt a w)) c))
              = counter (ethosGraphQLCount (heap w' c)) + 1
            \<and> ethosGetCount (heap (snd (graphql rt a w)) c) = ethosGetCount (heap w' c)
            \<and> ethosPostCount (heap (snd (graphql rt a w)) c) = ethosPostCount (heap w' c))
       \<and> ((\<forall>t u. \<not> resolvesToken rt a c w' t u) \<longrightarrow>
            (\<forall>r. counters (heap (snd (get rt a w)) r) = counters (heap w' r))
            \<and> (\<forall>r. counters (heap (snd (post rt a w)) r) = counters (heap w' r))
            \<and> (\<forall>r. counters (heap (snd (graphql rt a w)) r) = counters (heap w' r)))
       \<and> (resourceUrl rt a = Inl err \<longrightarrow>
            (\<forall>r. counters (heap (snd (get rt a w)) r) = counters (heap w' r))
            \<and> (\<forall>r. counters (heap (snd (post rt a w)) r) = counters (heap w' r)))"
  using get_counts [OF assms, of rt tok w'' url] post_counts [OF assms, of rt tok w'' url]
    graphql_counts [OF assms, of rt tok w'']
    get_unresolved_counters [OF assms, of rt] post_unresolved_counters [OF assms, of rt]
    graphql_unresolved_counters [OF assms, of rt] bad_url_counters [OF assms, of rt err]
  by blast

text \<open>
  A \<open>get\<close> answered with status 404 still counts; a \<open>get\<close> whose token resolution fails
  (no token, no API key) does not.
\<close>

theorem wrapper_counters_witness:
  "counter (ethosGetCount (heap (snd (get (sampleRuntime (Response 500 '''') (Response 404 bodyHtml))
      (noArgs\<lparr>context' := Some 0, resource := Some ''students'', token := Some ''t''\<rparr>)
      emptyWorld)) 0)) = 1
   \<and> ethosPostCount (heap (snd (get (sampleRuntime (Response 500 '''') (Response 404 bodyHtml))
      (noArgs\<lparr>context' := Some 0, resource := Some ''students'', token := Some ''t''\<rparr>)
      emptyWorld)) 0) = None
   \<and> counter (ethosGraphQLCount (heap (snd (graphql (sampleRuntime (Response 500 '''') (Response 404 bodyHtml))
      (noArgs\<lparr>context' := Some 0, resource := Some ''students'', token := Some ''t''\<rparr>)
      emptyWorld)) 0)) = 1
   \<and> counters (heap (snd (get (sampleRuntime (Response 500 '''') (Response 404 bodyHtml))
      (noArgs\<lparr>context' := Some 0, resource := Some ''students''\<rparr>) emptyWorld)) 0)
     = (None, None, None)"
  using wrapper_counters [where a = "noArgs\<lparr>context' := Some 0, resource := Some ''students'',
        token := Some ''t''\<rparr>" and w = emptyWorld and c = 0 and w' = emptyWorld and tok = "''t''"
      and w'' = emptyWorld and url = "''https://ethos.example/api/students''"
      and rt = "sampleRuntime (Response 500 '''') (Response 404 bodyHtml)"]
    wrapper_counters [where a = "noArgs\<lparr>context' := Some 0, resource := Some ''students''\<rparr>"
      and w = emptyWorld and c = 0 and w' = emptyWorld
      and rt = "sampleRuntime (Response 500 '''') (Response 404 bodyHtml)"]
  by (simp add: sample_defs explicit_resolves resourceUrl_def buildUrl_def counter_def counters_def
      resolvesToken_def getToken_def)

section \<open>The context of the result\<close>

lemma get_reply_context:
  assumes "defaultContext (context' a) w = (c, w')" and "fst (get rt a w) = Returns r"
  shows "reply_context r = c"
proof (cases "\<exists>t u. resolvesToken rt a c w' t u")
  case False
  then have "(\<exists>err u. getToken rt (a\<lparr>context' := Some c\<rparr>) w' = (Throws err, u))
         \<or> (\<exists>u. getToken rt (a\<lparr>context' := Some c\<rparr>) w' = (Returns (TokenResult c []), u))"
    using unresolved_token [of rt a c w'] by blast
  then show ?thesis using assms by (auto simp add: get_def split: if_splits)
next
  case True
  then obtain t u where res: "resolvesToken rt a c w' t u" by blast
  show ?thesis
  proof (cases "truthy (resource a)")
    case False
    then show ?thesis using assms by (simp add: get_def)
  next
    case True
    show ?thesis
    proof (cases "resourceUrl rt a")
      case (Inl err)
      then show ?thesis using assms(2) get_bad_url [OF assms(1) True res] by simp
    next
      case (Inr url)
      then show ?thesis
        using assms(2) unfolding get_resolved [OF assms(1) True res Inr]
        by (auto split: response.splits option.splits if_splits)
    qed
  qed
qed

lemma post_reply_context:
  assumes "defaultContext (context' a) w = (c, w')" and "fst (post rt a w) = Returns r"
  shows "reply_context r = c"
proof (cases "\<exists>t u. resolvesToken rt a c w' t u")
  case False
  then have "(\<exists>err u. getToken rt (a\<lparr>context' := Some c\<rparr>) w' = (Throws err, u))
         \<or> (\<exists>u. getToken rt (a\<lparr>context' := Some c\<rparr>) w' = (Returns (TokenResult c []), u))"
    using unresolved_token [of rt a c w'] by blast
  then show ?thesis using assms by (auto simp add: post_def split: if_splits)
next
  case True
  then obtain t u where res: "resolvesToken rt a c w' t u" by blast
  show ?thesis
  proof (cases "truthy (resource a)")
    case False
    then show ?thesis using assms by (simp add: post_def)
  next
    case True
    show ?thesis
    proof (cases "resourceUrl rt a")
      case (Inl err)
      then show ?thesis using assms(2) post_bad_url [OF assms(1) True res] by simp
    next
      case (Inr url)
      then show ?thesis
        using assms(2) unfolding post_resolved [OF assms(1) True res Inr]
        by (auto split: response.splits option.splits if_splits)
    qed
  qed
qed

text \<open>
  For \<open>getToken\<close>, \<open>get\<close> and \<open>post\<close> the context of a returned result is the reference
  the call worked on: the one the caller supplied, when the caller supplied one.
\<close>

theorem context_returned_by_reference:
  assumes "context' a = Some c"
  shows "(fst (getToken rt a w) = Returns tr \<longrightarrow> result_context tr = c)
       \<and> (fst (get rt a w) = Returns r \<longrightarrow> reply_context r = c)
       \<and> (fst (post rt a w) = Returns r \<longrightarrow> reply_context r = c)"
proof -
  have dc: "defaultContext (context' a) w = (c, w)"
    using assms by (simp add: defaultContext_def)
  have "fst (getToken rt a w) = Returns tr \<Longrightarrow> result_context tr = c"
    using getToken_result_context [OF _ dc, of rt tr "snd (getToken rt a w)"]
    by (cases "getToken rt a w") simp
  then show ?thesis
    using get_reply_context [OF dc] post_reply_context [OF dc] by blast
qed

theorem context_returned_by_reference_witness:
  "fst (getToken (sampleRuntime (Response 500 '''') (Response 200 bodyA))
          (noArgs\<lparr>context' := Some 0, resource := Some ''students'', token := Some ''t''\<rparr>)
          emptyWorld) = Returns (TokenResult 0 ''t'')
   \<and> result_context (TokenResult 0 ''t'') = 0
   \<and> fst (get (sampleRuntime (Response 500 '''') (Response 200 bodyA))
          (noArgs\<lparr>context' := Some 0, resource := Some ''students'', token := Some ''t''\<rparr>)
          emptyWorld) = Returns (DataReply 0 (JObj [(''a'', JNum 1)]))
   \<and> reply_context (DataReply 0 (JObj [(''a'', JNum 1)])) = 0"
proof -
  have dc: "defaultContext
              (context' (noArgs\<lparr>context' := Some 0, resource := Some ''students'', token := Some ''t''\<rparr>))
              emptyWorld = (0, emptyWorld)"
    by (simp add: defaultContext_def)
  have res: "resolvesToken (sampleRuntime (Response 500 '''') (Response 200 bodyA))
               (noArgs\<lparr>context' := Some 0, resource := Some ''students'', token := Some ''t''\<rparr>)
               0 emptyWorld ''t'' emptyWorld"
    by (rule explicit_resolves) (simp_all add: noArgs_def)
  have tok: "fst (getToken (sampleRuntime (Response 500 '''') (Response 200 bodyA))
          (noArgs\<lparr>context' := Some 0, resource := Some ''students'', token := Some ''t''\<rparr>)
          emptyWorld) = Returns (TokenResult 0 ''t'')"
    by (simp add: getToken_def sample_defs)
  have got: "fst (get (sampleRuntime (Response 500 '''') (Response 200 bodyA))
          (noArgs\<lparr>context' := Some 0, resource := Some ''students'', token := Some ''t''\<rparr>)
          emptyWorld) = Returns (DataReply 0 (JObj [(''a'', JNum 1)]))"
  proof -
    have tr: "truthy (resource (noArgs\<lparr>context' := Some 0, resource := Some ''students'',
                token := Some ''t''\<rparr>))"
      by (simp add: truthy_def)
    have url: "resourceUrl (sampleRuntime (Response 500 '''') (Response 200 bodyA))
                 (noArgs\<lparr>context' := Some 0, resource := Some ''students'', token := Some ''t''\<rparr>)
               = Inr ''https://ethos.example/api/students''"
      by (simp add: resourceUrl_def buildUrl_def sample_defs)
    show ?thesis
      unfolding get_resolved [OF dc tr res url]
      by (simp add: sampleRuntime_def sampleParse_def)
  qed
  show ?thesis
    using tok got
      context_returned_by_reference [where c = 0 and w = emptyWorld
        and a = "noArgs\<lparr>context' := Some 0, resource := Some ''students'', token := Some ''t''\<rparr>"
        and rt = "sampleRuntime (Response 500 '''') (Response 200 bodyA)"
        and tr = "TokenResult 0 ''t''" and r = "DataReply 0 (JObj [(''a'', JNum 1)])"]
    by simp
qed

text \<open>
  Claim C9 at a \<open>graphql\<close> call on the caller's context 0 whose response, with status
  200, is the JSON object with the one field \<open>context\<close>, of value 1. The call returns
  normally, and the \<open>context\<close> property of its result is that value of the body, not the
  reference to the caller's context: in \<open>{context, ...JSON.parse(response.body)}\<close> the
  spread comes after \<open>context\<close> and overwrites it.
\<close>

theorem graphql_context_overwritten:
  "fst (graphql (sampleRuntime (Response 500 '''') (Response 200 bodyContext))
          (noArgs\<lparr>context' := Some 0, token := Some ''t''\<rparr>) emptyWorld)
     = Returns [(''context'', Member (JNum 1))]"
proof -
  have dc: "defaultContext (context' (noArgs\<lparr>context' := Some 0, token := Some ''t''\<rparr>)) emptyWorld
              = (0, emptyWorld)"
    by (simp add: defaultContext_def)
  have res: "resolvesToken (sampleRuntime (Response 500 '''') (Response 200 bodyContext))
               (noArgs\<lparr>context' := Some 0, token := Some ''t''\<rparr>) 0 emptyWorld ''t'' emptyWorld"
    by (rule explicit_resolves) (simp_all add: noArgs_def)
  show ?thesis
    unfolding graphql_resolved [OF dc res]
    by (simp add: sampleRuntime_def sampleParse_def bodyA_def bodyData_def bodyContext_def
        assign_def)
qed

section \<open>A success status with a body that is not JSON\<close>

text \<open>
  Claim C10. Let \<open>raw\<close> be a text that \<open>JSON.parse\<close> rejects. A \<open>get\<close> answered with
  status 200 and body \<open>raw\<close>, and a \<open>post\<close> answered with status 200 or 201 and body
  \<open>raw\<close>, catch the \<open>SyntaxError\<close> and return it in the error-result
  \<open>{context, error}\<close>; a \<open>graphql\<close> call answered with status 200 and body \<open>raw\<close>
  throws the \<open>SyntaxError\<close> and returns nothing; \<open>getToken\<close>, answered with status 200
  and body \<open>raw\<close> by the authentication request, returns \<open>raw\<close> itself as the token,
  since it never parses the body.
\<close>

theorem unparseable_success_body:
  assumes "JSON_parse rt raw = None"
    and "defaultContext (context' a) w = (c, w')"
  shows "(truthy (resource a) \<and> resolvesToken rt a c w' tok w'' \<and> resourceUrl rt a = Inr url
            \<and> got rt GET url (getRequestOptions rt a tok) = Response 200 raw
            \<longrightarrow> fst (get rt a w) = Returns (ErrorReply c (SyntaxError raw)))
       \<and> (truthy (resource a) \<and> resolvesToken rt a c w' tok w'' \<and> resourceUrl rt a = Inr url
            \<and> got rt POST url (postRequestOptions rt a tok) = Response status raw
            \<and> (status = 200 \<or> status = 201)
            \<longrightarrow> fst (post rt a w) = Returns (ErrorReply c (SyntaxError raw)))
       \<and> (resolvesToken rt a c w' tok w''
            \<and> got rt POST (str (integrationUrl (ETHOS_INTEGRATION_URL rt) (options a)) @ ''/graphql'')
                  (graphqlRequestOptions a tok) = Response 200 raw
            \<longrightarrow> fst (graphql rt a w) = Throws (SyntaxError raw))
       \<and> (\<not> truthy (token a) \<and> truthy (apiKey a)
            \<and> (\<forall>t. cacheOf (heap w' c) (str (apiKey a)) = Some t \<longrightarrow> \<not> expires t - 30 * 1000 > now rt)
            \<and> got rt POST (str (integrationUrl (ETHOS_INTEGRATION_URL rt) (options a)) @ ''/auth'')
                  (authRequestOptions (str (apiKey a))) = Response 200 raw
            \<longrightarrow> fst (getToken rt a w) = Returns (TokenResult c raw))"
proof -
  have g: "truthy (resource a) \<Longrightarrow> resolvesToken rt a c w' tok w'' \<Longrightarrow> resourceUrl rt a = Inr url
        \<Longrightarrow> got rt GET url (getRequestOptions rt a tok) = Response 200 raw
        \<Longrightarrow> fst (get rt a w) = Returns (ErrorReply c (SyntaxError raw))"
    using assms(1) by (simp add: get_resolved [OF assms(2)])
  have p: "truthy (resource a) \<Longrightarrow> resolvesToken rt a c w' tok w'' \<Longrightarrow> resourceUrl rt a = Inr url
        \<Longrightarrow> got rt POST url (postRequestOptions rt a tok) = Response status raw
        \<Longrightarrow> status = 200 \<or> status = 201
        \<Longrightarrow> fst (post rt a w) = Returns (ErrorReply c (SyntaxError raw))"
    using assms(1) by (simp add: post_resolved [OF assms(2)])
  have q: "resolvesToken rt a c w' tok w''
        \<Longrightarrow> got rt POST (str (integrationUrl (ETHOS_INTEGRATION_URL rt) (options a)) @ ''/graphql'')
              (graphqlRequestOptions a tok) = Response 200 raw
        \<Longrightarrow> fst (graphql rt a w) = Throws (SyntaxError raw)"
    using assms(1) by (simp add: graphql_resolved [OF assms(2)])
  have t: "\<not> truthy (token a) \<Longrightarrow> truthy (apiKey a)
        \<Longrightarrow> \<forall>t. cacheOf (heap w' c) (str (apiKey a)) = Some t \<longrightarrow> \<not> expires t - 30 * 1000 > now rt
        \<Longrightarrow> got rt POST (str (integrationUrl (ETHOS_INTEGRATION_URL rt) (options a)) @ ''/auth'')
              (authRequestOptions (str (apiKey a))) = Response 200 raw
        \<Longrightarrow> fst (getToken rt a w) = Returns (TokenResult c raw)"
    using assms(2) no_usable_entry [of "heap w' c" "str (apiKey a)" "now rt"]
    by (simp add: getToken_def buildUrl_auth Let_def)
  from g p q t show ?thesis by blast
qed

text \<open>
  The provider answers every request, the authentication request too, with status 200
  and an HTML page. \<open>getToken\<close> returns the page as the token; with it the wrappers'
  requests are issued and answered with the page again.
\<close>

theorem unparseable_success_body_witness:
  "fst (getToken (sampleRuntime (Response 200 bodyHtml) (Response 200 bodyHtml))
          (noArgs\<lparr>apiKey := Some ''key'', context' := Some 0, resource := Some ''students''\<rparr>)
          emptyWorld) = Returns (TokenResult 0 bodyHtml)
   \<and> fst (get (sampleRuntime (Response 200 bodyHtml) (Response 200 bodyHtml))
          (noArgs\<lparr>context' := Some 0, resource := Some ''students'', token := Some ''t''\<rparr>)
          emptyWorld) = Returns (ErrorReply 0 (SyntaxError bodyHtml))
   \<and> fst (post (sampleRuntime (Response 200 bodyHtml) (Response 200 bodyHtml))
          (noArgs\<lparr>context' := Some 0, resource := Some ''students'', token := Some ''t''\<rparr>)
          emptyWorld) = Returns (ErrorReply 0 (SyntaxError bodyHtml))
   \<and> fst (graphql (sampleRuntime (Response 200 bodyHtml) (Response 200 bodyHtml))
          (noArgs\<lparr>context' := Some 0, resource := Some ''students'', token := Some ''t''\<rparr>)
          emptyWorld) = Throws (SyntaxError bodyHtml)"
  using unparseable_success_body [where rt = "sampleRuntime (Response 200 bodyHtml) (Response 200 bodyHtml)"
      and raw = bodyHtml
      and a = "noArgs\<lparr>apiKey := Some ''key'', context' := Some 0, resource := Some ''students''\<rparr>"
      and w = emptyWorld and c = 0 and w' = emptyWorld]
    unparseable_success_body [where rt = "sampleRuntime (Response 200 bodyHtml) (Response 200 bodyHtml)"
      and raw = bodyHtml
      and a = "noArgs\<lparr>context' := Some 0, resource := Some ''students'', token := Some ''t''\<rparr>"
      and w = emptyWorld and c = 0 and w' = emptyWorld and tok = "''t''" and w'' = emptyWorld
      and url = "''https://ethos.example/api/students''" and status = 200]
  by (simp add: sample_defs explicit_resolves resourceUrl_def buildUrl_def sampleParse_def
      bodyA_def bodyData_def bodyContext_def bodyHtml_def)

end
